theory Spec2Isabelle
  imports Main "HOL-Library.Word"
begin

unbundle bit_operations_syntax

section \<open>The VT102 emulation core of Konsole (Vt102Emulation.cpp)\<close>

text \<open>
  A shallow embedding of the tokenizer (\<open>receiveChars\<close>), the dispatcher
  (\<open>processToken\<close>), the mode registry, the charset filter and the mouse encoder.
  C++ \<open>int\<close> and \<open>uint\<close> values are 32-bit words; where the source compares them
  as signed integers the model uses the signed order. The Screen objects, the host's
  signals and the outbound byte sink are collaborators outside the file: every call on
  them is appended, in program order, to the \<open>trace\<close> field of the state.
\<close>

subsection \<open>Characters and bytes\<close>

abbreviation ch :: "char \<Rightarrow> 32 word" where
  "ch c \<equiv> of_char c"

definition str :: "string \<Rightarrow> 32 word list" where
  "str s = map of_char s"

definition bytes :: "string \<Rightarrow> 8 word list" where
  "bytes s = map of_char s"

definition ESC :: "32 word" where "ESC = 27"
definition DEL :: "32 word" where "DEL = 127"
definition SP :: "32 word" where "SP = 32"

text \<open>\<open>#define CNTL(c) ((c) - '@')\<close>\<close>

definition CNTL :: "32 word \<Rightarrow> 32 word" where
  "CNTL c = c - ch CHR ''@''"

definition URL_LINK :: "32 word" where "URL_LINK = ch CHR ''8''"

text \<open>\<open>vt100_graphics[32]\<close>, the table of the DEC special graphics set.\<close>

definition vt100_graphics :: "32 word list" where
  "vt100_graphics =
    [0x0020, 0x25C6, 0x2592, 0x2409, 0x240c, 0x240d, 0x240a, 0x00b0,
     0x00b1, 0x2424, 0x240b, 0x2518, 0x2510, 0x250c, 0x2514, 0x253c,
     0xF800, 0xF801, 0x2500, 0xF803, 0xF804, 0x251c, 0x2524, 0x2534,
     0x252c, 0x2502, 0x2264, 0x2265, 0x03C0, 0x2260, 0x00A3, 0x00b7]"

subsection \<open>Tokens\<close>

text \<open>
  \<open>token_construct(t, a, n)\<close> packs the kind, the final byte and the secondary value
  into one machine word: \<open>((n & 0xffff) << 16) | ((a & 0xff) << 8) | (t & 0xff)\<close>.
\<close>

definition token_construct :: "32 word \<Rightarrow> 32 word \<Rightarrow> 32 word \<Rightarrow> 32 word" where
  "token_construct t a n = push_bit 16 (n AND 0xffff) OR push_bit 8 (a AND 0xff) OR (t AND 0xff)"

definition token_chr :: "32 word" where "token_chr = token_construct 0 0 0"
definition token_ctl :: "32 word \<Rightarrow> 32 word" where "token_ctl a = token_construct 1 a 0"
definition token_esc :: "32 word \<Rightarrow> 32 word" where "token_esc a = token_construct 2 a 0"
definition token_esc_cs :: "32 word \<Rightarrow> 32 word \<Rightarrow> 32 word" where
  "token_esc_cs a b = token_construct 3 a b"
definition token_esc_de :: "32 word \<Rightarrow> 32 word" where "token_esc_de a = token_construct 4 a 0"
definition token_csi_ps :: "32 word \<Rightarrow> 32 word \<Rightarrow> 32 word" where
  "token_csi_ps a n = token_construct 5 a n"
definition token_csi_pn :: "32 word \<Rightarrow> 32 word" where "token_csi_pn a = token_construct 6 a 0"
definition token_csi_pr :: "32 word \<Rightarrow> 32 word \<Rightarrow> 32 word" where
  "token_csi_pr a n = token_construct 7 a n"
definition token_vt52 :: "32 word \<Rightarrow> 32 word" where "token_vt52 a = token_construct 8 a 0"
definition token_csi_pg :: "32 word \<Rightarrow> 32 word" where "token_csi_pg a = token_construct 9 a 0"
definition token_csi_pe :: "32 word \<Rightarrow> 32 word" where "token_csi_pe a = token_construct 10 a 0"
definition token_csi_sp :: "32 word \<Rightarrow> 32 word" where "token_csi_sp a = token_construct 11 a 0"
definition token_csi_psp :: "32 word \<Rightarrow> 32 word \<Rightarrow> 32 word" where
  "token_csi_psp a n = token_construct 12 a n"
definition token_csi_pq :: "32 word \<Rightarrow> 32 word" where "token_csi_pq a = token_construct 13 a 0"

definition MAX_ARGUMENT :: "32 word" where "MAX_ARGUMENT = 40960"

text \<open>
  Modelled from the spec: \<open>MAXARGS\<close> and \<open>MAX_TOKEN_LENGTH\<close> are macros of the class
  header, which is not among the sources. The spec gives 15 arguments and a token buffer
  of "80 KiB worth of u32s". The proofs below use of these two values only that
  \<open>MAXARGS\<close> is at least 6 and \<open>MAX_TOKEN_LENGTH\<close> at least 1.
\<close>

definition MAXARGS :: nat where "MAXARGS = 15"
definition MAX_TOKEN_LENGTH :: nat where "MAX_TOKEN_LENGTH = 20480"

subsection \<open>Character classes\<close>

definition CTL :: "8 word" where "CTL = 1"
definition CHR_flag :: "8 word" where "CHR_flag = 2"
definition CPN :: "8 word" where "CPN = 4"
definition DIG :: "8 word" where "DIG = 8"
definition SCS :: "8 word" where "SCS = 16"
definition GRP :: "8 word" where "GRP = 32"
definition CPS :: "8 word" where "CPS = 64"
definition INT_flag :: "8 word" where "INT_flag = 128"

text \<open>
  The 256 entries of \<open>charClass\<close> as the loops of \<open>initTokenizer\<close> leave them: every
  loop ORs one flag into the entries of one range or of one string.
\<close>

definition charClass :: "32 word \<Rightarrow> 8 word" where
  "charClass i =
     (if i < 32 then CTL else 0)
     OR (if 32 \<le> i \<and> i < 256 then CHR_flag else 0)
     OR (if 0x20 \<le> i \<and> i < 0x30 then INT_flag else 0)
     OR (if i \<in> set (str ''@ABCDEFGHILMPSTXZbcdfry'') then CPN else 0)
     OR (if i \<in> set (str ''t'') then CPS else 0)
     OR (if i \<in> set (str ''0123456789'') then DIG else 0)
     OR (if i \<in> set (str ''()+*%'') then SCS else 0)
     OR (if i \<in> set (str ''()+*#[]%'') then GRP else 0)"

subsection \<open>Modes\<close>

text \<open>
  The mode identifiers. The first seven are the modes the Screen class declares
  (\<open>MODE_Origin\<close> .. \<open>MODE_AppScreen\<close>), the others are declared by the emulation,
  counting on from \<open>MODES_SCREEN\<close>.
\<close>

datatype mode =
    MODE_Origin | MODE_Wrap | MODE_Insert | MODE_Screen | MODE_Cursor | MODE_NewLine
  | MODE_AppScreen
  | MODE_AppCuKeys | MODE_AppKeyPad
  | MODE_Mouse1000 | MODE_Mouse1001 | MODE_Mouse1002 | MODE_Mouse1003
  | MODE_Mouse1005 | MODE_Mouse1006 | MODE_Mouse1007 | MODE_Mouse1015
  | MODE_Ansi | MODE_132Columns | MODE_Allow132Columns | MODE_BracketedPaste

text \<open>
  Modelled from the spec: the numbering of the modes is in headers that are not among
  the sources. The comment in \<open>resetMode\<close> gives "MODES_SCREEN is 7, MODE_AppScreen is 6
  and MODE_NewLine is 5"; the spec says that the modes numbered below \<open>MODES_SCREEN\<close>
  plus \<open>NewLine\<close> are forwarded to both screens.
\<close>

fun mode_index :: "mode \<Rightarrow> nat" where
  "mode_index MODE_Origin = 0"
| "mode_index MODE_Wrap = 1"
| "mode_index MODE_Insert = 2"
| "mode_index MODE_Screen = 3"
| "mode_index MODE_Cursor = 4"
| "mode_index MODE_NewLine = 5"
| "mode_index MODE_AppScreen = 6"
| "mode_index MODE_AppCuKeys = 7"
| "mode_index MODE_AppKeyPad = 8"
| "mode_index MODE_Mouse1000 = 9"
| "mode_index MODE_Mouse1001 = 10"
| "mode_index MODE_Mouse1002 = 11"
| "mode_index MODE_Mouse1003 = 12"
| "mode_index MODE_Mouse1005 = 13"
| "mode_index MODE_Mouse1006 = 14"
| "mode_index MODE_Mouse1007 = 15"
| "mode_index MODE_Mouse1015 = 16"
| "mode_index MODE_Ansi = 17"
| "mode_index MODE_132Columns = 18"
| "mode_index MODE_Allow132Columns = 19"
| "mode_index MODE_BracketedPaste = 20"

definition MODES_SCREEN :: nat where "MODES_SCREEN = 7"

subsection \<open>Calls on the collaborators\<close>

datatype rendition =
    RE_BOLD | RE_FAINT | RE_ITALIC | RE_UNDERLINE | RE_BLINK | RE_REVERSE | RE_CONCEAL
  | RE_STRIKEOUT | RE_OVERLINE

datatype line_property = LINE_DOUBLEWIDTH | LINE_DOUBLEHEIGHT_TOP | LINE_DOUBLEHEIGHT_BOTTOM

datatype cursor_shape = BlockCursor | UnderlineCursor | IBeamCursor

datatype codec_id = LocaleCodec | Utf8Codec

text \<open>
  Modelled from the spec: the colour spaces are macros of a header that is not among
  the sources; the spec names them (\<open>COLOR_SPACE_SYSTEM\<close>, \<open>COLOR_SPACE_256\<close>,
  \<open>COLOR_SPACE_RGB\<close>) without their values. The theorems below refer to them by name.
\<close>

definition COLOR_SPACE_DEFAULT :: "32 word" where "COLOR_SPACE_DEFAULT = 1"
definition COLOR_SPACE_SYSTEM :: "32 word" where "COLOR_SPACE_SYSTEM = 2"
definition COLOR_SPACE_256 :: "32 word" where "COLOR_SPACE_256 = 3"
definition COLOR_SPACE_RGB :: "32 word" where "COLOR_SPACE_RGB = 4"

text \<open>The operations of the Screen interface that the core invokes.\<close>

datatype screen_call =
    DisplayCharacter "32 word"
  | Backspace | Tab "32 word" | Backtab "32 word" | NewLine | ToStartOfLine
  | Index | ReverseIndex | NextLine
  | ChangeTabStop bool | ClearTabStops
  | SetLineProperty line_property bool | HelpAlign
  | ClearToEndOfLine | ClearToBeginOfLine | ClearEntireLine
  | ClearToEndOfScreen | ClearToBeginOfScreen | ClearEntireScreen
  | ScrSetMode mode | ScrResetMode mode | ScrSaveMode mode | ScrRestoreMode mode
  | SetDefaultRendition | SetRendition rendition | ResetRendition rendition
  | SetForeColor "32 word" "32 word" | SetBackColor "32 word" "32 word"
  | InsertChars "32 word" | DeleteChars "32 word" | EraseChars "32 word"
  | RepeatChars "32 word"
  | InsertLines "32 word" | DeleteLines "32 word"
  | CursorUp "32 word" | CursorDown "32 word" | CursorLeft "32 word" | CursorRight "32 word"
  | CursorNextLine "32 word" | CursorPreviousLine "32 word"
  | SetCursorX "32 word" | SetCursorY "32 word" | SetCursorYX "32 word" "32 word"
  | ScrollUp "32 word" | ScrollDown "32 word"
  | SetMargins "32 word" "32 word" | SetDefaultMargins
  | SaveCursor | RestoreCursor | ClearSelection | ScreenReset
  | ToggleUrlInput

text \<open>
  The first argument of \<open>setImageSize\<close>: a number of lines, or the number of lines the
  current screen has (\<open>_currentScreen->getLines()\<close>), which the model does not track.
\<close>

datatype lines_arg = Lines "32 word" | CurrentLines

text \<open>
  What the core does to the outside, in program order: a call on screen 0 or 1, bytes
  sent to the child, a signal, a call into the base class, or a call of
  \<open>reportDecodingError\<close>. The replies of \<open>reportCursorPosition\<close> and \<open>reportSize\<close>
  print numbers that they read from the current screen; the trace records which screen
  they ask. \<open>ReportDecodingError\<close> carries the buffer contents that the function dumps,
  or \<open>None\<close> when it returns at its first test.
\<close>

datatype event =
    ScreenCall nat screen_call
  | SendData "8 word list"
  | SendCursorPositionReport nat
  | SendSizeReport nat
  | ProcessChecksumRequest nat "32 word list"
  | SessionAttribute "32 word" "32 word list" "32 word"
  | Bell
  | ImageResizeRequest "32 word" "32 word"
  | SetCursorStyleRequest cursor_shape bool
  | ResetCursorStyleRequest
  | ProgramRequestsMouseTracking bool
  | ProgramBracketedPasteModeChanged bool
  | EnableAlternateScrolling bool
  | SetImageSize lines_arg "32 word"
  | ClearHistory
  | SetCodec codec_id
  | BufferedUpdate
  | ReportDecodingError "32 word list option"

subsection \<open>The state of the emulation\<close>

text \<open>\<open>CharCodes\<close>: the charset state, one per screen.\<close>

record CharCodes =
  charset :: "32 word \<Rightarrow> 8 word"
  cu_cs :: "32 word"
  graphic :: bool
  pound :: bool
  sa_graphic :: bool
  sa_pound :: bool

text \<open>
  The members of \<open>Vt102Emulation\<close> that the modelled functions read or write.
  \<open>currentScreen\<close> is the index of the screen \<open>_currentScreen\<close> points to.
  \<open>charClass_beyond\<close> stands for the bytes that lie behind the 256 entries of
  \<open>charClass\<close>: two tests of the tokenizer index the table with a buffered code point
  without checking that it is below 256.
\<close>

record emu =
  currentModes :: "mode \<Rightarrow> bool"
  savedModes :: "mode \<Rightarrow> bool"
  tokenBuffer :: "nat \<Rightarrow> 32 word"
  tokenBufferPos :: nat
  argv :: "nat \<Rightarrow> 32 word"
  argc :: nat
  charClass_beyond :: "32 word \<Rightarrow> 8 word"
  charsets :: "nat \<Rightarrow> CharCodes"
  currentScreen :: nat
  codec :: "codec_id option"
  reportFocusEvents :: bool
  trace :: "event list"

definition emit :: "event \<Rightarrow> emu \<Rightarrow> emu" where
  "emit ev st = st\<lparr>trace := trace st @ [ev]\<rparr>"

text \<open>A call on \<open>_currentScreen\<close>, and a call on \<open>_screen[i]\<close>.\<close>

definition scr :: "screen_call \<Rightarrow> emu \<Rightarrow> emu" where
  "scr c st = emit (ScreenCall (currentScreen st) c) st"

definition scrn :: "nat \<Rightarrow> screen_call \<Rightarrow> emu \<Rightarrow> emu" where
  "scrn i c st = emit (ScreenCall i c) st"

text \<open>Statements in sequence: \<open>seq [f, g] st\<close> runs \<open>f\<close>, then \<open>g\<close>.\<close>

definition seq :: "(emu \<Rightarrow> emu) list \<Rightarrow> emu \<Rightarrow> emu" where
  "seq fs st = fold (\<lambda>f s. f s) fs st"

definition sendString :: "8 word list \<Rightarrow> emu \<Rightarrow> emu" where
  "sendString s st = emit (SendData s) st"

text \<open>
  Modelled from the spec: \<open>setScreen\<close>, \<open>setImageSize\<close>, \<open>setCodec\<close>, \<open>clearHistory\<close> and
  \<open>bufferedUpdate\<close> are methods of the base class, which is not among the sources.
  \<open>setScreen\<close> makes \<open>_currentScreen\<close> point to one of the two screens; the codec is
  swapped through \<open>setCodec\<close>; the others act on collaborators only.
\<close>

definition setScreen :: "nat \<Rightarrow> emu \<Rightarrow> emu" where
  "setScreen n st = st\<lparr>currentScreen := n mod 2\<rparr>"

definition setImageSize :: "lines_arg \<Rightarrow> 32 word \<Rightarrow> emu \<Rightarrow> emu" where
  "setImageSize l c st = emit (SetImageSize l c) st"

definition setCodec :: "codec_id \<Rightarrow> emu \<Rightarrow> emu" where
  "setCodec c st = emit (SetCodec c) (st\<lparr>codec := Some c\<rparr>)"

definition clearHistory :: "emu \<Rightarrow> emu" where
  "clearHistory st = emit ClearHistory st"

definition bufferedUpdate :: "emu \<Rightarrow> emu" where
  "bufferedUpdate st = emit BufferedUpdate st"

definition set_reportFocusEvents :: "bool \<Rightarrow> emu \<Rightarrow> emu" where
  "set_reportFocusEvents b st = st\<lparr>reportFocusEvents := b\<rparr>"


subsection \<open>Replies to device queries\<close>

definition reportCursorPosition :: "emu \<Rightarrow> emu" where
  "reportCursorPosition st = emit (SendCursorPositionReport (currentScreen st)) st"

definition reportSize :: "emu \<Rightarrow> emu" where
  "reportSize st = emit (SendSizeReport (currentScreen st)) st"

definition reportStatus :: "emu \<Rightarrow> emu" where
  "reportStatus st = sendString (0x1B # bytes ''[0n'') st"

text \<open>\<open>%d\<close> of \<open>snprintf\<close>: the signed decimal numeral of an \<open>int\<close>.\<close>

function decimal :: "nat \<Rightarrow> 8 word list" where
  "decimal n =
     (if n < 10 then [of_nat (48 + n)] else decimal (n div 10) @ [of_nat (48 + n mod 10)])"
  by pat_completeness auto
termination
  by (relation "measure (\<lambda>n. n)") auto

declare decimal.simps [simp del]

definition fmt_d :: "32 word \<Rightarrow> 8 word list" where
  "fmt_d x = (if x <s 0 then 0x2D # decimal (nat (- sint x)) else decimal (nat (sint x)))"

definition reportTerminalParms :: "32 word \<Rightarrow> emu \<Rightarrow> emu" where
  "reportTerminalParms p st =
     sendString (0x1B # bytes ''['' @ fmt_d p @ bytes '';1;1;112;112;1;0x'') st"

definition reportAnswerBack :: "emu \<Rightarrow> emu" where
  "reportAnswerBack st = sendString [] st"

text \<open>
  \<open>reportDecodingError\<close> returns at once on an empty buffer and on a buffer of one
  printable character; otherwise it builds the dump of the buffer.
\<close>

definition reportDecodingError :: "emu \<Rightarrow> emu" where
  "reportDecodingError st =
     (if tokenBufferPos st = 0
         \<or> (tokenBufferPos st = 1 \<and> 32 \<le> (tokenBuffer st 0 AND 0xff))
      then emit (ReportDecodingError None) st
      else emit (ReportDecodingError (Some (map (tokenBuffer st) [0 ..< tokenBufferPos st]))) st)"

subsection \<open>The mode registry\<close>

definition getMode :: "mode \<Rightarrow> emu \<Rightarrow> bool" where
  "getMode m st = currentModes st m"

definition set_current :: "mode \<Rightarrow> bool \<Rightarrow> emu \<Rightarrow> emu" where
  "set_current m b st = st\<lparr>currentModes := (currentModes st)(m := b)\<rparr>"

definition setDefaultMargins :: "emu \<Rightarrow> emu" where
  "setDefaultMargins st = seq [scrn 0 SetDefaultMargins, scrn 1 SetDefaultMargins] st"

definition setMargins :: "32 word \<Rightarrow> 32 word \<Rightarrow> emu \<Rightarrow> emu" where
  "setMargins t b st = seq [scrn 0 (SetMargins t b), scrn 1 (SetMargins t b)] st"

definition clearEntireScreen :: "emu \<Rightarrow> emu" where
  "clearEntireScreen st = seq [scr ClearEntireScreen, bufferedUpdate] st"

definition clearScreenAndSetColumns :: "32 word \<Rightarrow> emu \<Rightarrow> emu" where
  "clearScreenAndSetColumns columnCount st =
     seq [setImageSize CurrentLines columnCount, clearEntireScreen, setDefaultMargins,
          scr (SetCursorYX 0 0)] st"

definition is_tracking_mode :: "mode \<Rightarrow> bool" where
  "is_tracking_mode m =
     (m = MODE_Mouse1000 \<or> m = MODE_Mouse1001 \<or> m = MODE_Mouse1002 \<or> m = MODE_Mouse1003)"

definition is_encoding_mode :: "mode \<Rightarrow> bool" where
  "is_encoding_mode m = (m = MODE_Mouse1005 \<or> m = MODE_Mouse1006 \<or> m = MODE_Mouse1015)"

text \<open>The tail of \<open>setMode\<close> and \<open>resetMode\<close>: \<open>m < MODES_SCREEN || m == MODE_NewLine\<close>.\<close>

definition forwarded :: "mode \<Rightarrow> bool" where
  "forwarded m = (mode_index m < MODES_SCREEN \<or> m = MODE_NewLine)"

definition setMode :: "mode \<Rightarrow> emu \<Rightarrow> emu" where
  "setMode m st =
     (let st1 = set_current m True st;
          st2 =
            (if m = MODE_132Columns then
               (if getMode MODE_Allow132Columns st1 then clearScreenAndSetColumns 132 st1
                else set_current m False st1)
             else if is_tracking_mode m then
               seq [set_current MODE_Mouse1000 False, set_current MODE_Mouse1001 False,
                    set_current MODE_Mouse1002 False, set_current MODE_Mouse1003 False,
                    set_current m True, emit (ProgramRequestsMouseTracking True)] st1
             else if m = MODE_Mouse1007 then emit (EnableAlternateScrolling True) st1
             else if is_encoding_mode m then
               seq [set_current MODE_Mouse1005 False, set_current MODE_Mouse1006 False,
                    set_current MODE_Mouse1015 False, set_current m True] st1
             else if m = MODE_BracketedPaste then
               emit (ProgramBracketedPasteModeChanged True) st1
             else if m = MODE_AppScreen then
               seq [scrn 1 SetDefaultRendition, scrn 1 ClearSelection, setScreen 1] st1
             else st1)
      in if forwarded m then seq [scrn 0 (ScrSetMode m), scrn 1 (ScrSetMode m)] st2 else st2)"

definition resetMode :: "mode \<Rightarrow> emu \<Rightarrow> emu" where
  "resetMode m st =
     (let st1 = set_current m False st;
          st2 =
            (if m = MODE_132Columns then
               (if getMode MODE_Allow132Columns st1 then clearScreenAndSetColumns 80 st1
                else st1)
             else if is_tracking_mode m then
               seq [set_current MODE_Mouse1000 False, set_current MODE_Mouse1001 False,
                    set_current MODE_Mouse1002 False, set_current MODE_Mouse1003 False,
                    emit (ProgramRequestsMouseTracking False)] st1
             else if m = MODE_Mouse1007 then emit (EnableAlternateScrolling False) st1
             else if m = MODE_BracketedPaste then
               emit (ProgramBracketedPasteModeChanged False) st1
             else if m = MODE_AppScreen then
               seq [scrn 0 ClearSelection, setScreen 0] st1
             else st1)
      in if forwarded m then seq [scrn 0 (ScrResetMode m), scrn 1 (ScrResetMode m)] st2
         else st2)"

definition saveMode :: "mode \<Rightarrow> emu \<Rightarrow> emu" where
  "saveMode m st = st\<lparr>savedModes := (savedModes st)(m := currentModes st m)\<rparr>"

definition restoreMode :: "mode \<Rightarrow> emu \<Rightarrow> emu" where
  "restoreMode m st = (if savedModes st m then setMode m st else resetMode m st)"

definition resetModes :: "emu \<Rightarrow> emu" where
  "resetModes st =
     seq [resetMode MODE_132Columns, saveMode MODE_132Columns,
          resetMode MODE_Mouse1000, saveMode MODE_Mouse1000,
          resetMode MODE_Mouse1001, saveMode MODE_Mouse1001,
          resetMode MODE_Mouse1002, saveMode MODE_Mouse1002,
          resetMode MODE_Mouse1003, saveMode MODE_Mouse1003,
          resetMode MODE_Mouse1005, saveMode MODE_Mouse1005,
          resetMode MODE_Mouse1006, saveMode MODE_Mouse1006,
          resetMode MODE_Mouse1015, saveMode MODE_Mouse1015,
          resetMode MODE_BracketedPaste, saveMode MODE_BracketedPaste,
          resetMode MODE_AppScreen, saveMode MODE_AppScreen,
          resetMode MODE_AppCuKeys, saveMode MODE_AppCuKeys,
          resetMode MODE_AppKeyPad, saveMode MODE_AppKeyPad,
          resetMode MODE_NewLine,
          setMode MODE_Ansi] st"

text \<open>\<open>reportTerminalType\<close> and its siblings answer the device-attribute queries.\<close>

definition reportTerminalType :: "emu \<Rightarrow> emu" where
  "reportTerminalType st =
     (if getMode MODE_Ansi st then sendString (0x1B # bytes ''[?1;2c'') st
      else sendString (0x1B # bytes ''/Z'') st)"

definition reportTertiaryAttributes :: "emu \<Rightarrow> emu" where
  "reportTertiaryAttributes st =
     sendString (0x1B # bytes ''P!|7E4B4445'' @ [0x1B, 0x5C]) st"

definition reportSecondaryAttributes :: "emu \<Rightarrow> emu" where
  "reportSecondaryAttributes st =
     (if getMode MODE_Ansi st then sendString (0x1B # bytes ''[>0;115;0c'') st
      else sendString (0x1B # bytes ''/Z'') st)"

subsection \<open>The charset filter\<close>

text \<open>\<open>#define CHARSET _charset[_currentScreen == _screen[1]]\<close>\<close>

definition CHARSET_index :: "emu \<Rightarrow> nat" where
  "CHARSET_index st = (if currentScreen st = 1 then 1 else 0)"

definition CHARSET :: "emu \<Rightarrow> CharCodes" where
  "CHARSET st = charsets st (CHARSET_index st)"

definition set_charset_of :: "nat \<Rightarrow> (CharCodes \<Rightarrow> CharCodes) \<Rightarrow> emu \<Rightarrow> emu" where
  "set_charset_of i f st = st\<lparr>charsets := (charsets st)(i := f (charsets st i))\<rparr>"

definition applyCharset :: "32 word \<Rightarrow> emu \<Rightarrow> 32 word" where
  "applyCharset c st =
     (if graphic (CHARSET st) \<and> 0x5f \<le> c \<and> c \<le> 0x7e then vt100_graphics ! unat (c - 0x5f)
      else if pound (CHARSET st) \<and> c = ch CHR ''#'' then 0xa3
      else c)"

text \<open>
  \<open>resetCharset\<close> writes the slots with \<open>qstrncpy(charset, "BBBB", 4)\<close>. Qt's \<open>qstrncpy\<close>
  copies at most \<open>len - 1\<close> characters and always ends the destination with a NUL, so
  the slots become \<open>B\<close>, \<open>B\<close>, \<open>B\<close> and 0.
\<close>

definition resetCharset :: "nat \<Rightarrow> emu \<Rightarrow> emu" where
  "resetCharset scrno st =
     set_charset_of scrno
       (\<lambda>c. c\<lparr>cu_cs := 0,
              charset := (charset c)(0 := of_char CHR ''B'', 1 := of_char CHR ''B'',
                                     2 := of_char CHR ''B'', 3 := 0),
              sa_graphic := False, sa_pound := False, graphic := False, pound := False\<rparr>) st"

definition useCharset :: "32 word \<Rightarrow> emu \<Rightarrow> emu" where
  "useCharset n st =
     set_charset_of (CHARSET_index st)
       (\<lambda>c. c\<lparr>cu_cs := n AND 3,
              graphic := (charset c (n AND 3) = of_char CHR ''0''),
              pound := (charset c (n AND 3) = of_char CHR ''A'')\<rparr>) st"

definition setCharset :: "32 word \<Rightarrow> 32 word \<Rightarrow> emu \<Rightarrow> emu" where
  "setCharset n cs st =
     (let st1 = set_charset_of 0 (\<lambda>c. c\<lparr>charset := (charset c)(n AND 3 := ucast cs)\<rparr>) st;
          st2 = useCharset (cu_cs (charsets st1 0)) st1;
          st3 = set_charset_of 1 (\<lambda>c. c\<lparr>charset := (charset c)(n AND 3 := ucast cs)\<rparr>) st2
      in useCharset (cu_cs (charsets st3 1)) st3)"

definition setAndUseCharset :: "32 word \<Rightarrow> 32 word \<Rightarrow> emu \<Rightarrow> emu" where
  "setAndUseCharset n cs st =
     useCharset (n AND 3)
       (set_charset_of (CHARSET_index st)
          (\<lambda>c. c\<lparr>charset := (charset c)(n AND 3 := ucast cs)\<rparr>) st)"

definition saveCursor :: "emu \<Rightarrow> emu" where
  "saveCursor st =
     scr SaveCursor
       (set_charset_of (CHARSET_index st)
          (\<lambda>c. c\<lparr>sa_graphic := graphic c, sa_pound := pound c\<rparr>) st)"

definition restoreCursor :: "emu \<Rightarrow> emu" where
  "restoreCursor st =
     scr RestoreCursor
       (set_charset_of (CHARSET_index st)
          (\<lambda>c. c\<lparr>graphic := sa_graphic c, pound := sa_pound c\<rparr>) st)"

subsection \<open>The tokenizer state\<close>

definition resetTokenizer :: "emu \<Rightarrow> emu" where
  "resetTokenizer st =
     st\<lparr>tokenBufferPos := 0, argc := 0, argv := (argv st)(0 := 0, 1 := 0)\<rparr>"

text \<open>\<open>qMin\<close> on \<open>int\<close>: the signed order.\<close>

definition qMin :: "32 word \<Rightarrow> 32 word \<Rightarrow> 32 word" where
  "qMin a b = (if b <s a then b else a)"

definition addDigit :: "32 word \<Rightarrow> emu \<Rightarrow> emu" where
  "addDigit digit st =
     st\<lparr>argv := (argv st)(argc st := qMin (10 * argv st (argc st) + digit) MAX_ARGUMENT)\<rparr>"

definition addArgument :: "emu \<Rightarrow> emu" where
  "addArgument st =
     (let n = min (argc st + 1) (MAXARGS - 1)
      in st\<lparr>argc := n, argv := (argv st)(n := 0)\<rparr>)"

definition addToCurrentToken :: "32 word \<Rightarrow> emu \<Rightarrow> emu" where
  "addToCurrentToken cc st =
     (let pos = min (tokenBufferPos st) (MAX_TOKEN_LENGTH - 1)
      in st\<lparr>tokenBuffer := (tokenBuffer st)(pos := cc), tokenBufferPos := pos + 1\<rparr>)"

subsection \<open>Reset\<close>

definition reset :: "emu \<Rightarrow> emu" where
  "reset st =
     (let currentCodec = codec st
      in seq [resetTokenizer, resetModes,
              resetCharset 0, scrn 0 ScreenReset,
              resetCharset 1, scrn 1 ScreenReset,
              (case currentCodec of Some c \<Rightarrow> setCodec c | None \<Rightarrow> setCodec LocaleCodec),
              emit ResetCursorStyleRequest,
              bufferedUpdate] st)"

subsection \<open>The dispatcher\<close>

definition ignored :: "emu \<Rightarrow> emu" where
  "ignored st = st"

text \<open>
  \<open>processToken\<close>: the cases of the \<open>switch\<close> in the order of the source; the last
  line is \<open>default: reportDecodingError()\<close>.
\<close>

definition processToken :: "32 word \<Rightarrow> 32 word \<Rightarrow> 32 word \<Rightarrow> emu \<Rightarrow> emu" where
  "processToken token p q st =
     (if token = token_chr then scr (DisplayCharacter p) st
      else if token = token_ctl (ch CHR ''@'') then ignored st
      else if token = token_ctl (ch CHR ''A'') then ignored st
      else if token = token_ctl (ch CHR ''B'') then ignored st
      else if token = token_ctl (ch CHR ''C'') then ignored st
      else if token = token_ctl (ch CHR ''D'') then ignored st
      else if token = token_ctl (ch CHR ''E'') then reportAnswerBack st
      else if token = token_ctl (ch CHR ''F'') then ignored st
      else if token = token_ctl (ch CHR ''G'') then emit Bell st
      else if token = token_ctl (ch CHR ''H'') then scr Backspace st
      else if token = token_ctl (ch CHR ''I'') then scr (Tab 1) st
      else if token = token_ctl (ch CHR ''J'') then scr NewLine st
      else if token = token_ctl (ch CHR ''K'') then scr NewLine st
      else if token = token_ctl (ch CHR ''L'') then scr NewLine st
      else if token = token_ctl (ch CHR ''M'') then scr ToStartOfLine st
      else if token = token_ctl (ch CHR ''N'') then useCharset 1 st
      else if token = token_ctl (ch CHR ''O'') then useCharset 0 st
      else if token = token_ctl (ch CHR ''P'') then ignored st
      else if token = token_ctl (ch CHR ''Q'') then ignored st
      else if token = token_ctl (ch CHR ''R'') then ignored st
      else if token = token_ctl (ch CHR ''S'') then ignored st
      else if token = token_ctl (ch CHR ''T'') then ignored st
      else if token = token_ctl (ch CHR ''U'') then ignored st
      else if token = token_ctl (ch CHR ''V'') then ignored st
      else if token = token_ctl (ch CHR ''W'') then ignored st
      else if token = token_ctl (ch CHR ''X'') then scr (DisplayCharacter 0x2592) st
      else if token = token_ctl (ch CHR ''Y'') then ignored st
      else if token = token_ctl (ch CHR ''Z'') then scr (DisplayCharacter 0x2592) st
      else if token = token_ctl (ch CHR ''['') then ignored st
      else if token = token_ctl (0x5C) then ignored st
      else if token = token_ctl (ch CHR '']'') then ignored st
      else if token = token_ctl (ch CHR ''^'') then ignored st
      else if token = token_ctl (ch CHR ''_'') then ignored st
      else if token = token_esc (ch CHR ''D'') then scr Index st
      else if token = token_esc (ch CHR ''E'') then scr NextLine st
      else if token = token_esc (ch CHR ''H'') then scr (ChangeTabStop True) st
      else if token = token_esc (ch CHR ''M'') then scr ReverseIndex st
      else if token = token_esc (ch CHR ''Z'') then reportTerminalType st
      else if token = token_esc (ch CHR ''c'') then reset st
      else if token = token_esc (ch CHR ''n'') then useCharset 2 st
      else if token = token_esc (ch CHR ''o'') then useCharset 3 st
      else if token = token_esc (ch CHR ''7'') then saveCursor st
      else if token = token_esc (ch CHR ''8'') then restoreCursor st
      else if token = token_esc (ch CHR ''='') then setMode MODE_AppKeyPad st
      else if token = token_esc (ch CHR ''>'') then resetMode MODE_AppKeyPad st
      else if token = token_esc (ch CHR ''<'') then setMode MODE_Ansi st
      else if token = token_esc_cs (ch CHR ''('') (ch CHR ''0'') then setCharset 0 (ch CHR ''0'') st
      else if token = token_esc_cs (ch CHR ''('') (ch CHR ''A'') then setCharset 0 (ch CHR ''A'') st
      else if token = token_esc_cs (ch CHR ''('') (ch CHR ''B'') then setCharset 0 (ch CHR ''B'') st
      else if token = token_esc_cs (ch CHR '')'') (ch CHR ''0'') then setCharset 1 (ch CHR ''0'') st
      else if token = token_esc_cs (ch CHR '')'') (ch CHR ''A'') then setCharset 1 (ch CHR ''A'') st
      else if token = token_esc_cs (ch CHR '')'') (ch CHR ''B'') then setCharset 1 (ch CHR ''B'') st
      else if token = token_esc_cs (ch CHR ''*'') (ch CHR ''0'') then setCharset 2 (ch CHR ''0'') st
      else if token = token_esc_cs (ch CHR ''*'') (ch CHR ''A'') then setCharset 2 (ch CHR ''A'') st
      else if token = token_esc_cs (ch CHR ''*'') (ch CHR ''B'') then setCharset 2 (ch CHR ''B'') st
      else if token = token_esc_cs (ch CHR ''+'') (ch CHR ''0'') then setCharset 3 (ch CHR ''0'') st
      else if token = token_esc_cs (ch CHR ''+'') (ch CHR ''A'') then setCharset 3 (ch CHR ''A'') st
      else if token = token_esc_cs (ch CHR ''+'') (ch CHR ''B'') then setCharset 3 (ch CHR ''B'') st
      else if token = token_esc_cs (ch CHR ''%'') (ch CHR ''G'') then setCodec Utf8Codec st
      else if token = token_esc_cs (ch CHR ''%'') (ch CHR ''@'') then setCodec LocaleCodec st
      else if token = token_esc_de (ch CHR ''3'') then seq [scr (SetLineProperty LINE_DOUBLEWIDTH True), scr (SetLineProperty LINE_DOUBLEHEIGHT_TOP True), scr (SetLineProperty LINE_DOUBLEHEIGHT_BOTTOM False)] st
      else if token = token_esc_de (ch CHR ''4'') then seq [scr (SetLineProperty LINE_DOUBLEWIDTH True), scr (SetLineProperty LINE_DOUBLEHEIGHT_TOP False), scr (SetLineProperty LINE_DOUBLEHEIGHT_BOTTOM True)] st
      else if token = token_esc_de (ch CHR ''5'') then seq [scr (SetLineProperty LINE_DOUBLEWIDTH False), scr (SetLineProperty LINE_DOUBLEHEIGHT_TOP False), scr (SetLineProperty LINE_DOUBLEHEIGHT_BOTTOM False)] st
      else if token = token_esc_de (ch CHR ''6'') then seq [scr (SetLineProperty LINE_DOUBLEWIDTH True), scr (SetLineProperty LINE_DOUBLEHEIGHT_TOP False), scr (SetLineProperty LINE_DOUBLEHEIGHT_BOTTOM False)] st
      else if token = token_esc_de (ch CHR ''8'') then scr HelpAlign st
      else if token = token_csi_ps (ch CHR ''t'') 8 then seq [setImageSize (Lines p) q, emit (ImageResizeRequest q p)] st
      else if token = token_csi_ps (ch CHR ''t'') 18 then reportSize st
      else if token = token_csi_ps (ch CHR ''t'') 28 then ignored st
      else if token = token_csi_ps (ch CHR ''t'') 22 then ignored st
      else if token = token_csi_ps (ch CHR ''t'') 23 then ignored st
      else if token = token_csi_ps (ch CHR ''K'') 0 then scr ClearToEndOfLine st
      else if token = token_csi_ps (ch CHR ''K'') 1 then scr ClearToBeginOfLine st
      else if token = token_csi_ps (ch CHR ''K'') 2 then scr ClearEntireLine st
      else if token = token_csi_ps (ch CHR ''J'') 0 then scr ClearToEndOfScreen st
      else if token = token_csi_ps (ch CHR ''J'') 1 then scr ClearToBeginOfScreen st
      else if token = token_csi_ps (ch CHR ''J'') 2 then scr ClearEntireScreen st
      else if token = token_csi_ps (ch CHR ''J'') 3 then clearHistory st
      else if token = token_csi_ps (ch CHR ''g'') 0 then scr (ChangeTabStop False) st
      else if token = token_csi_ps (ch CHR ''g'') 3 then scr ClearTabStops st
      else if token = token_csi_ps (ch CHR ''h'') 4 then scr (ScrSetMode MODE_Insert) st
      else if token = token_csi_ps (ch CHR ''h'') 20 then setMode MODE_NewLine st
      else if token = token_csi_ps (ch CHR ''i'') 0 then ignored st
      else if token = token_csi_ps (ch CHR ''l'') 4 then scr (ScrResetMode MODE_Insert) st
      else if token = token_csi_ps (ch CHR ''l'') 20 then resetMode MODE_NewLine st
      else if token = token_csi_ps (ch CHR ''s'') 0 then saveCursor st
      else if token = token_csi_ps (ch CHR ''u'') 0 then restoreCursor st
      else if token = token_csi_ps (ch CHR ''m'') 0 then scr SetDefaultRendition st
      else if token = token_csi_ps (ch CHR ''m'') 1 then scr (SetRendition RE_BOLD) st
      else if token = token_csi_ps (ch CHR ''m'') 2 then scr (SetRendition RE_FAINT) st
      else if token = token_csi_ps (ch CHR ''m'') 3 then scr (SetRendition RE_ITALIC) st
      else if token = token_csi_ps (ch CHR ''m'') 4 then scr (SetRendition RE_UNDERLINE) st
      else if token = token_csi_ps (ch CHR ''m'') 5 then scr (SetRendition RE_BLINK) st
      else if token = token_csi_ps (ch CHR ''m'') 7 then scr (SetRendition RE_REVERSE) st
      else if token = token_csi_ps (ch CHR ''m'') 8 then scr (SetRendition RE_CONCEAL) st
      else if token = token_csi_ps (ch CHR ''m'') 9 then scr (SetRendition RE_STRIKEOUT) st
      else if token = token_csi_ps (ch CHR ''m'') 53 then scr (SetRendition RE_OVERLINE) st
      else if token = token_csi_ps (ch CHR ''m'') 10 then ignored st
      else if token = token_csi_ps (ch CHR ''m'') 11 then ignored st
      else if token = token_csi_ps (ch CHR ''m'') 12 then ignored st
      else if token = token_csi_ps (ch CHR ''m'') 21 then scr (ResetRendition RE_BOLD) st
      else if token = token_csi_ps (ch CHR ''m'') 22 then seq [scr (ResetRendition RE_BOLD), scr (ResetRendition RE_FAINT)] st
      else if token = token_csi_ps (ch CHR ''m'') 23 then scr (ResetRendition RE_ITALIC) st
      else if token = token_csi_ps (ch CHR ''m'') 24 then scr (ResetRendition RE_UNDERLINE) st
      else if token = token_csi_ps (ch CHR ''m'') 25 then scr (ResetRendition RE_BLINK) st
      else if token = token_csi_ps (ch CHR ''m'') 27 then scr (ResetRendition RE_REVERSE) st
      else if token = token_csi_ps (ch CHR ''m'') 28 then scr (ResetRendition RE_CONCEAL) st
      else if token = token_csi_ps (ch CHR ''m'') 29 then scr (ResetRendition RE_STRIKEOUT) st
      else if token = token_csi_ps (ch CHR ''m'') 55 then scr (ResetRendition RE_OVERLINE) st
      else if token = token_csi_ps (ch CHR ''m'') 30 then scr (SetForeColor COLOR_SPACE_SYSTEM 0) st
      else if token = token_csi_ps (ch CHR ''m'') 31 then scr (SetForeColor COLOR_SPACE_SYSTEM 1) st
      else if token = token_csi_ps (ch CHR ''m'') 32 then scr (SetForeColor COLOR_SPACE_SYSTEM 2) st
      else if token = token_csi_ps (ch CHR ''m'') 33 then scr (SetForeColor COLOR_SPACE_SYSTEM 3) st
      else if token = token_csi_ps (ch CHR ''m'') 34 then scr (SetForeColor COLOR_SPACE_SYSTEM 4) st
      else if token = token_csi_ps (ch CHR ''m'') 35 then scr (SetForeColor COLOR_SPACE_SYSTEM 5) st
      else if token = token_csi_ps (ch CHR ''m'') 36 then scr (SetForeColor COLOR_SPACE_SYSTEM 6) st
      else if token = token_csi_ps (ch CHR ''m'') 37 then scr (SetForeColor COLOR_SPACE_SYSTEM 7) st
      else if token = token_csi_ps (ch CHR ''m'') 38 then scr (SetForeColor p q) st
      else if token = token_csi_ps (ch CHR ''m'') 39 then scr (SetForeColor COLOR_SPACE_DEFAULT 0) st
      else if token = token_csi_ps (ch CHR ''m'') 40 then scr (SetBackColor COLOR_SPACE_SYSTEM 0) st
      else if token = token_csi_ps (ch CHR ''m'') 41 then scr (SetBackColor COLOR_SPACE_SYSTEM 1) st
      else if token = token_csi_ps (ch CHR ''m'') 42 then scr (SetBackColor COLOR_SPACE_SYSTEM 2) st
      else if token = token_csi_ps (ch CHR ''m'') 43 then scr (SetBackColor COLOR_SPACE_SYSTEM 3) st
      else if token = token_csi_ps (ch CHR ''m'') 44 then scr (SetBackColor COLOR_SPACE_SYSTEM 4) st
      else if token = token_csi_ps (ch CHR ''m'') 45 then scr (SetBackColor COLOR_SPACE_SYSTEM 5) st
      else if token = token_csi_ps (ch CHR ''m'') 46 then scr (SetBackColor COLOR_SPACE_SYSTEM 6) st
      else if token = token_csi_ps (ch CHR ''m'') 47 then scr (SetBackColor COLOR_SPACE_SYSTEM 7) st
      else if token = token_csi_ps (ch CHR ''m'') 48 then scr (SetBackColor p q) st
      else if token = token_csi_ps (ch CHR ''m'') 49 then scr (SetBackColor COLOR_SPACE_DEFAULT 1) st
      else if token = token_csi_ps (ch CHR ''m'') 90 then scr (SetForeColor COLOR_SPACE_SYSTEM 8) st
      else if token = token_csi_ps (ch CHR ''m'') 91 then scr (SetForeColor COLOR_SPACE_SYSTEM 9) st
      else if token = token_csi_ps (ch CHR ''m'') 92 then scr (SetForeColor COLOR_SPACE_SYSTEM 10) st
      else if token = token_csi_ps (ch CHR ''m'') 93 then scr (SetForeColor COLOR_SPACE_SYSTEM 11) st
      else if token = token_csi_ps (ch CHR ''m'') 94 then scr (SetForeColor COLOR_SPACE_SYSTEM 12) st
      else if token = token_csi_ps (ch CHR ''m'') 95 then scr (SetForeColor COLOR_SPACE_SYSTEM 13) st
      else if token = token_csi_ps (ch CHR ''m'') 96 then scr (SetForeColor COLOR_SPACE_SYSTEM 14) st
      else if token = token_csi_ps (ch CHR ''m'') 97 then scr (SetForeColor COLOR_SPACE_SYSTEM 15) st
      else if token = token_csi_ps (ch CHR ''m'') 100 then scr (SetBackColor COLOR_SPACE_SYSTEM 8) st
      else if token = token_csi_ps (ch CHR ''m'') 101 then scr (SetBackColor COLOR_SPACE_SYSTEM 9) st
      else if token = token_csi_ps (ch CHR ''m'') 102 then scr (SetBackColor COLOR_SPACE_SYSTEM 10) st
      else if token = token_csi_ps (ch CHR ''m'') 103 then scr (SetBackColor COLOR_SPACE_SYSTEM 11) st
      else if token = token_csi_ps (ch CHR ''m'') 104 then scr (SetBackColor COLOR_SPACE_SYSTEM 12) st
      else if token = token_csi_ps (ch CHR ''m'') 105 then scr (SetBackColor COLOR_SPACE_SYSTEM 13) st
      else if token = token_csi_ps (ch CHR ''m'') 106 then scr (SetBackColor COLOR_SPACE_SYSTEM 14) st
      else if token = token_csi_ps (ch CHR ''m'') 107 then scr (SetBackColor COLOR_SPACE_SYSTEM 15) st
      else if token = token_csi_ps (ch CHR ''n'') 5 then reportStatus st
      else if token = token_csi_ps (ch CHR ''n'') 6 then reportCursorPosition st
      else if token = token_csi_ps (ch CHR ''q'') 0 then ignored st
      else if token = token_csi_ps (ch CHR ''q'') 1 then ignored st
      else if token = token_csi_ps (ch CHR ''q'') 2 then ignored st
      else if token = token_csi_ps (ch CHR ''q'') 3 then ignored st
      else if token = token_csi_ps (ch CHR ''q'') 4 then ignored st
      else if token = token_csi_ps (ch CHR ''x'') 0 then reportTerminalParms 2 st
      else if token = token_csi_ps (ch CHR ''x'') 1 then reportTerminalParms 3 st
      else if token = token_csi_pn (ch CHR ''@'') then scr (InsertChars p) st
      else if token = token_csi_pn (ch CHR ''A'') then scr (CursorUp p) st
      else if token = token_csi_pn (ch CHR ''B'') then scr (CursorDown p) st
      else if token = token_csi_pn (ch CHR ''C'') then scr (CursorRight p) st
      else if token = token_csi_pn (ch CHR ''D'') then scr (CursorLeft p) st
      else if token = token_csi_pn (ch CHR ''E'') then scr (CursorNextLine p) st
      else if token = token_csi_pn (ch CHR ''F'') then scr (CursorPreviousLine p) st
      else if token = token_csi_pn (ch CHR ''G'') then scr (SetCursorX p) st
      else if token = token_csi_pn (ch CHR ''H'') then scr (SetCursorYX p q) st
      else if token = token_csi_pn (ch CHR ''I'') then scr (Tab p) st
      else if token = token_csi_pn (ch CHR ''L'') then scr (InsertLines p) st
      else if token = token_csi_pn (ch CHR ''M'') then scr (DeleteLines p) st
      else if token = token_csi_pn (ch CHR ''P'') then scr (DeleteChars p) st
      else if token = token_csi_pn (ch CHR ''S'') then scr (ScrollUp p) st
      else if token = token_csi_pn (ch CHR ''T'') then scr (ScrollDown p) st
      else if token = token_csi_pn (ch CHR ''X'') then scr (EraseChars p) st
      else if token = token_csi_pn (ch CHR ''Z'') then scr (Backtab p) st
      else if token = token_csi_pn (ch CHR ''b'') then scr (RepeatChars p) st
      else if token = token_csi_pn (ch CHR ''c'') then reportTerminalType st
      else if token = token_csi_pn (ch CHR ''d'') then scr (SetCursorY p) st
      else if token = token_csi_pn (ch CHR ''f'') then scr (SetCursorYX p q) st
      else if token = token_csi_pn (ch CHR ''r'') then setMargins p q st
      else if token = token_csi_pn (ch CHR ''y'') then ignored st
      else if token = token_csi_pr (ch CHR ''h'') 1 then setMode MODE_AppCuKeys st
      else if token = token_csi_pr (ch CHR ''l'') 1 then resetMode MODE_AppCuKeys st
      else if token = token_csi_pr (ch CHR ''s'') 1 then saveMode MODE_AppCuKeys st
      else if token = token_csi_pr (ch CHR ''r'') 1 then restoreMode MODE_AppCuKeys st
      else if token = token_csi_pr (ch CHR ''l'') 2 then resetMode MODE_Ansi st
      else if token = token_csi_pr (ch CHR ''h'') 3 then setMode MODE_132Columns st
      else if token = token_csi_pr (ch CHR ''l'') 3 then resetMode MODE_132Columns st
      else if token = token_csi_pr (ch CHR ''h'') 4 then ignored st
      else if token = token_csi_pr (ch CHR ''l'') 4 then ignored st
      else if token = token_csi_pr (ch CHR ''h'') 5 then scr (ScrSetMode MODE_Screen) st
      else if token = token_csi_pr (ch CHR ''l'') 5 then scr (ScrResetMode MODE_Screen) st
      else if token = token_csi_pr (ch CHR ''h'') 6 then scr (ScrSetMode MODE_Origin) st
      else if token = token_csi_pr (ch CHR ''l'') 6 then scr (ScrResetMode MODE_Origin) st
      else if token = token_csi_pr (ch CHR ''s'') 6 then scr (ScrSaveMode MODE_Origin) st
      else if token = token_csi_pr (ch CHR ''r'') 6 then scr (ScrRestoreMode MODE_Origin) st
      else if token = token_csi_pr (ch CHR ''h'') 7 then scr (ScrSetMode MODE_Wrap) st
      else if token = token_csi_pr (ch CHR ''l'') 7 then scr (ScrResetMode MODE_Wrap) st
      else if token = token_csi_pr (ch CHR ''s'') 7 then scr (ScrSaveMode MODE_Wrap) st
      else if token = token_csi_pr (ch CHR ''r'') 7 then scr (ScrRestoreMode MODE_Wrap) st
      else if token = token_csi_pr (ch CHR ''h'') 8 then ignored st
      else if token = token_csi_pr (ch CHR ''l'') 8 then ignored st
      else if token = token_csi_pr (ch CHR ''s'') 8 then ignored st
      else if token = token_csi_pr (ch CHR ''r'') 8 then ignored st
      else if token = token_csi_pr (ch CHR ''h'') 9 then ignored st
      else if token = token_csi_pr (ch CHR ''l'') 9 then ignored st
      else if token = token_csi_pr (ch CHR ''s'') 9 then ignored st
      else if token = token_csi_pr (ch CHR ''r'') 9 then ignored st
      else if token = token_csi_pr (ch CHR ''h'') 12 then ignored st
      else if token = token_csi_pr (ch CHR ''l'') 12 then ignored st
      else if token = token_csi_pr (ch CHR ''s'') 12 then ignored st
      else if token = token_csi_pr (ch CHR ''r'') 12 then ignored st
      else if token = token_csi_pr (ch CHR ''h'') 25 then setMode MODE_Cursor st
      else if token = token_csi_pr (ch CHR ''l'') 25 then resetMode MODE_Cursor st
      else if token = token_csi_pr (ch CHR ''s'') 25 then saveMode MODE_Cursor st
      else if token = token_csi_pr (ch CHR ''r'') 25 then restoreMode MODE_Cursor st
      else if token = token_csi_pr (ch CHR ''h'') 40 then setMode MODE_Allow132Columns st
      else if token = token_csi_pr (ch CHR ''l'') 40 then resetMode MODE_Allow132Columns st
      else if token = token_csi_pr (ch CHR ''h'') 41 then ignored st
      else if token = token_csi_pr (ch CHR ''l'') 41 then ignored st
      else if token = token_csi_pr (ch CHR ''s'') 41 then ignored st
      else if token = token_csi_pr (ch CHR ''r'') 41 then ignored st
      else if token = token_csi_pr (ch CHR ''h'') 47 then setMode MODE_AppScreen st
      else if token = token_csi_pr (ch CHR ''l'') 47 then resetMode MODE_AppScreen st
      else if token = token_csi_pr (ch CHR ''s'') 47 then saveMode MODE_AppScreen st
      else if token = token_csi_pr (ch CHR ''r'') 47 then restoreMode MODE_AppScreen st
      else if token = token_csi_pr (ch CHR ''h'') 67 then ignored st
      else if token = token_csi_pr (ch CHR ''l'') 67 then ignored st
      else if token = token_csi_pr (ch CHR ''s'') 67 then ignored st
      else if token = token_csi_pr (ch CHR ''r'') 67 then ignored st
      else if token = token_csi_pr (ch CHR ''h'') 1000 then setMode MODE_Mouse1000 st
      else if token = token_csi_pr (ch CHR ''l'') 1000 then resetMode MODE_Mouse1000 st
      else if token = token_csi_pr (ch CHR ''s'') 1000 then saveMode MODE_Mouse1000 st
      else if token = token_csi_pr (ch CHR ''r'') 1000 then restoreMode MODE_Mouse1000 st
      else if token = token_csi_pr (ch CHR ''h'') 1001 then ignored st
      else if token = token_csi_pr (ch CHR ''l'') 1001 then resetMode MODE_Mouse1001 st
      else if token = token_csi_pr (ch CHR ''s'') 1001 then ignored st
      else if token = token_csi_pr (ch CHR ''r'') 1001 then ignored st
      else if token = token_csi_pr (ch CHR ''h'') 1002 then setMode MODE_Mouse1002 st
      else if token = token_csi_pr (ch CHR ''l'') 1002 then resetMode MODE_Mouse1002 st
      else if token = token_csi_pr (ch CHR ''s'') 1002 then saveMode MODE_Mouse1002 st
      else if token = token_csi_pr (ch CHR ''r'') 1002 then restoreMode MODE_Mouse1002 st
      else if token = token_csi_pr (ch CHR ''h'') 1003 then setMode MODE_Mouse1003 st
      else if token = token_csi_pr (ch CHR ''l'') 1003 then resetMode MODE_Mouse1003 st
      else if token = token_csi_pr (ch CHR ''s'') 1003 then saveMode MODE_Mouse1003 st
      else if token = token_csi_pr (ch CHR ''r'') 1003 then restoreMode MODE_Mouse1003 st
      else if token = token_csi_pr (ch CHR ''h'') 1004 then set_reportFocusEvents True st
      else if token = token_csi_pr (ch CHR ''l'') 1004 then set_reportFocusEvents False st
      else if token = token_csi_pr (ch CHR ''h'') 1005 then setMode MODE_Mouse1005 st
      else if token = token_csi_pr (ch CHR ''l'') 1005 then resetMode MODE_Mouse1005 st
      else if token = token_csi_pr (ch CHR ''s'') 1005 then saveMode MODE_Mouse1005 st
      else if token = token_csi_pr (ch CHR ''r'') 1005 then restoreMode MODE_Mouse1005 st
      else if token = token_csi_pr (ch CHR ''h'') 1006 then setMode MODE_Mouse1006 st
      else if token = token_csi_pr (ch CHR ''l'') 1006 then resetMode MODE_Mouse1006 st
      else if token = token_csi_pr (ch CHR ''s'') 1006 then saveMode MODE_Mouse1006 st
      else if token = token_csi_pr (ch CHR ''r'') 1006 then restoreMode MODE_Mouse1006 st
      else if token = token_csi_pr (ch CHR ''h'') 1007 then setMode MODE_Mouse1007 st
      else if token = token_csi_pr (ch CHR ''l'') 1007 then resetMode MODE_Mouse1007 st
      else if token = token_csi_pr (ch CHR ''s'') 1007 then saveMode MODE_Mouse1007 st
      else if token = token_csi_pr (ch CHR ''r'') 1007 then restoreMode MODE_Mouse1007 st
      else if token = token_csi_pr (ch CHR ''h'') 1015 then setMode MODE_Mouse1015 st
      else if token = token_csi_pr (ch CHR ''l'') 1015 then resetMode MODE_Mouse1015 st
      else if token = token_csi_pr (ch CHR ''s'') 1015 then saveMode MODE_Mouse1015 st
      else if token = token_csi_pr (ch CHR ''r'') 1015 then restoreMode MODE_Mouse1015 st
      else if token = token_csi_pr (ch CHR ''h'') 1034 then ignored st
      else if token = token_csi_pr (ch CHR ''h'') 1047 then setMode MODE_AppScreen st
      else if token = token_csi_pr (ch CHR ''l'') 1047 then seq [scrn 1 ClearEntireScreen, resetMode MODE_AppScreen] st
      else if token = token_csi_pr (ch CHR ''s'') 1047 then saveMode MODE_AppScreen st
      else if token = token_csi_pr (ch CHR ''r'') 1047 then restoreMode MODE_AppScreen st
      else if token = token_csi_pr (ch CHR ''h'') 1048 then saveCursor st
      else if token = token_csi_pr (ch CHR ''l'') 1048 then restoreCursor st
      else if token = token_csi_pr (ch CHR ''s'') 1048 then saveCursor st
      else if token = token_csi_pr (ch CHR ''r'') 1048 then restoreCursor st
      else if token = token_csi_pr (ch CHR ''h'') 1049 then seq [saveCursor, scrn 1 ClearEntireScreen, setMode MODE_AppScreen] st
      else if token = token_csi_pr (ch CHR ''l'') 1049 then seq [resetMode MODE_AppScreen, restoreCursor] st
      else if token = token_csi_pr (ch CHR ''h'') 2004 then setMode MODE_BracketedPaste st
      else if token = token_csi_pr (ch CHR ''l'') 2004 then resetMode MODE_BracketedPaste st
      else if token = token_csi_pr (ch CHR ''s'') 2004 then saveMode MODE_BracketedPaste st
      else if token = token_csi_pr (ch CHR ''r'') 2004 then restoreMode MODE_BracketedPaste st
      else if token = token_csi_sp (ch CHR ''q'') then emit (SetCursorStyleRequest BlockCursor True) st
      else if token = token_csi_psp (ch CHR ''q'') 0 then emit ResetCursorStyleRequest st
      else if token = token_csi_psp (ch CHR ''q'') 1 then emit (SetCursorStyleRequest BlockCursor True) st
      else if token = token_csi_psp (ch CHR ''q'') 2 then emit (SetCursorStyleRequest BlockCursor False) st
      else if token = token_csi_psp (ch CHR ''q'') 3 then emit (SetCursorStyleRequest UnderlineCursor True) st
      else if token = token_csi_psp (ch CHR ''q'') 4 then emit (SetCursorStyleRequest UnderlineCursor False) st
      else if token = token_csi_psp (ch CHR ''q'') 5 then emit (SetCursorStyleRequest IBeamCursor True) st
      else if token = token_csi_psp (ch CHR ''q'') 6 then emit (SetCursorStyleRequest IBeamCursor False) st
      else if token = token_csi_pe (ch CHR ''p'') then ignored st
      else if token = token_vt52 (ch CHR ''A'') then scr (CursorUp 1) st
      else if token = token_vt52 (ch CHR ''B'') then scr (CursorDown 1) st
      else if token = token_vt52 (ch CHR ''C'') then scr (CursorRight 1) st
      else if token = token_vt52 (ch CHR ''D'') then scr (CursorLeft 1) st
      else if token = token_vt52 (ch CHR ''F'') then setAndUseCharset 0 (ch CHR ''0'') st
      else if token = token_vt52 (ch CHR ''G'') then setAndUseCharset 0 (ch CHR ''B'') st
      else if token = token_vt52 (ch CHR ''H'') then scr (SetCursorYX 1 1) st
      else if token = token_vt52 (ch CHR ''I'') then scr ReverseIndex st
      else if token = token_vt52 (ch CHR ''J'') then scr ClearToEndOfScreen st
      else if token = token_vt52 (ch CHR ''K'') then scr ClearToEndOfLine st
      else if token = token_vt52 (ch CHR ''Y'') then scr (SetCursorYX (p - 31) (q - 31)) st
      else if token = token_vt52 (ch CHR ''Z'') then reportTerminalType st
      else if token = token_vt52 (ch CHR ''<'') then setMode MODE_Ansi st
      else if token = token_vt52 (ch CHR ''='') then setMode MODE_AppKeyPad st
      else if token = token_vt52 (ch CHR ''>'') then resetMode MODE_AppKeyPad st
      else if token = token_csi_pq (ch CHR ''c'') then reportTertiaryAttributes st
      else if token = token_csi_pg (ch CHR ''c'') then reportSecondaryAttributes st
      else reportDecodingError st)"

subsection \<open>The scanning macros\<close>

text \<open>
  A read of \<open>charClass\<close> that the source does not guard with \<open>< 256\<close>.
\<close>

definition charClass_at :: "emu \<Rightarrow> 32 word \<Rightarrow> 8 word" where
  "charClass_at st c = (if c < 256 then charClass c else charClass_beyond st c)"

text \<open>
  The macros take the length \<open>p\<close> of the token scanned so far, the buffer \<open>s\<close> and the
  current character \<open>cc\<close> as arguments.
\<close>

definition lec :: "nat \<Rightarrow> (nat \<Rightarrow> 32 word) \<Rightarrow> nat \<Rightarrow> nat \<Rightarrow> 32 word \<Rightarrow> bool" where
  "lec p s P L C = (p = P \<and> s L = C)"

definition lun :: "nat \<Rightarrow> 32 word \<Rightarrow> bool" where
  "lun p cc = (p = 1 \<and> 32 \<le> cc)"

definition les :: "nat \<Rightarrow> (nat \<Rightarrow> 32 word) \<Rightarrow> nat \<Rightarrow> nat \<Rightarrow> 8 word \<Rightarrow> bool" where
  "les p s P L C = (p = P \<and> s L < 256 \<and> charClass (s L) AND C = C)"

definition eec :: "nat \<Rightarrow> 32 word \<Rightarrow> 32 word \<Rightarrow> bool" where
  "eec p cc C = (3 \<le> p \<and> cc = C)"

definition ees :: "nat \<Rightarrow> 32 word \<Rightarrow> 8 word \<Rightarrow> bool" where
  "ees p cc C = (3 \<le> p \<and> cc < 256 \<and> charClass cc AND C = C)"

definition eps :: "emu \<Rightarrow> nat \<Rightarrow> (nat \<Rightarrow> 32 word) \<Rightarrow> 32 word \<Rightarrow> 8 word \<Rightarrow> bool" where
  "eps st p s cc C =
     (3 \<le> p \<and> s 2 \<noteq> ch CHR ''?'' \<and> s 2 \<noteq> ch CHR ''!'' \<and> s 2 \<noteq> ch CHR ''=''
      \<and> s 2 \<noteq> ch CHR ''>'' \<and> cc < 256 \<and> charClass cc AND C = C
      \<and> charClass_at st (s (p - 2)) AND INT_flag \<noteq> INT_flag)"

definition epp :: "nat \<Rightarrow> (nat \<Rightarrow> 32 word) \<Rightarrow> bool" where
  "epp p s = (3 \<le> p \<and> s 2 = ch CHR ''?'')"

definition epe :: "nat \<Rightarrow> (nat \<Rightarrow> 32 word) \<Rightarrow> bool" where
  "epe p s = (3 \<le> p \<and> s 2 = ch CHR ''!'')"

definition eeq :: "nat \<Rightarrow> (nat \<Rightarrow> 32 word) \<Rightarrow> bool" where
  "eeq p s = (3 \<le> p \<and> s 2 = ch CHR ''='')"

definition egt :: "nat \<Rightarrow> (nat \<Rightarrow> 32 word) \<Rightarrow> bool" where
  "egt p s = (3 \<le> p \<and> s 2 = ch CHR ''>'')"

definition esp :: "nat \<Rightarrow> (nat \<Rightarrow> 32 word) \<Rightarrow> bool" where
  "esp p s = (4 \<le> p \<and> s 2 = SP)"

definition epsp :: "nat \<Rightarrow> (nat \<Rightarrow> 32 word) \<Rightarrow> bool" where
  "epsp p s = (5 \<le> p \<and> s 3 = SP)"

definition osc :: "emu \<Rightarrow> bool" where
  "osc st = (2 \<le> tokenBufferPos st \<and> tokenBuffer st 1 = ch CHR '']'')"

definition ces :: "32 word \<Rightarrow> 8 word \<Rightarrow> bool" where
  "ces cc C = (cc < 256 \<and> charClass cc AND C = C)"

definition dcs :: "nat \<Rightarrow> (nat \<Rightarrow> 32 word) \<Rightarrow> bool" where
  "dcs p s = (2 \<le> p \<and> s 0 = ESC \<and> s 1 = ch CHR ''P'')"

subsection \<open>Requests handled by the tokenizer itself\<close>

text \<open>
  \<open>processChecksumRequest\<close> (DECRQCRA) computes its reply from the image of the current
  screen, in a part of the function that is compiled only with \<open>ENABLE_DECRQCRA\<close>. The
  trace records the call with \<open>argc\<close> and the six arguments it may read.
\<close>

definition processChecksumRequest :: "emu \<Rightarrow> emu" where
  "processChecksumRequest st =
     emit (ProcessChecksumRequest (argc st) (map (argv st) [0 ..< 6])) st"

text \<open>
  The loop of \<open>processSessionAttributeRequest\<close> that reads the decimal attribute number
  from position \<open>i\<close> of the buffer on; it returns the position where it stops and the
  number.
\<close>

function osc_attribute ::
  "(nat \<Rightarrow> 32 word) \<Rightarrow> nat \<Rightarrow> nat \<Rightarrow> 32 word \<Rightarrow> nat \<times> 32 word" where
  "osc_attribute s tokenSize i attribute =
     (if i < tokenSize \<and> ch CHR ''0'' \<le> s i \<and> s i \<le> ch CHR ''9''
      then osc_attribute s tokenSize (i + 1) (10 * attribute + (s i - ch CHR ''0''))
      else (i, attribute))"
  by pat_completeness auto
termination
  by (relation "measure (\<lambda>(s, tokenSize, i, attribute). tokenSize - i)") auto

declare osc_attribute.simps [simp del]

text \<open>
  \<open>processSessionAttributeRequest\<close>: a body without \<open>;\<close> after the number is a decoding
  error. Otherwise the attribute, its text and the terminator go to the handling of
  session attributes (the URL extractor, the attribute request, the cursor shape or the
  pending updates), which is outside the tokenizer; the trace records them.
\<close>

definition processSessionAttributeRequest :: "nat \<Rightarrow> emu \<Rightarrow> emu" where
  "processSessionAttributeRequest tokenSize0 st =
     (let tokenSize = tokenSize0 - 1;
          (i, attribute) = osc_attribute (tokenBuffer st) tokenSize 2 0
      in if tokenBuffer st i \<noteq> ch CHR '';'' then reportDecodingError st
         else emit (SessionAttribute attribute (map (tokenBuffer st) [i + 1 ..< tokenSize])
                      (tokenBuffer st tokenSize)) st)"


subsection \<open>The mouse encoder\<close>

text \<open>
  \<open>snprintf(command, sizeof(command), ...)\<close> stores at most \<open>size - 1\<close> characters of
  the formatted text, and \<open>sendString(command)\<close> sends the characters before the first
  NUL.
\<close>

definition snprintf :: "nat \<Rightarrow> 8 word list \<Rightarrow> 8 word list" where
  "snprintf n out = take (n - 1) out"

definition c_string :: "8 word list \<Rightarrow> 8 word list" where
  "c_string bs = takeWhile (\<lambda>b. b \<noteq> 0) bs"

text \<open>\<open>QString::toUtf8\<close> for one code unit below \<open>0x800\<close>: one or two bytes.\<close>

definition toUtf8 :: "32 word \<Rightarrow> 8 word list" where
  "toUtf8 u =
     (if u < 0x80 then [ucast u]
      else [ucast (0xC0 OR drop_bit 6 u), ucast (0x80 OR (u AND 0x3F))])"

definition sendMouseEvent :: "32 word \<Rightarrow> 32 word \<Rightarrow> 32 word \<Rightarrow> 32 word \<Rightarrow> emu \<Rightarrow> emu" where
  "sendMouseEvent cb cx cy eventType st =
     (if cx <s 1 \<or> cy <s 1 then st
      else if eventType = 1 \<and> getMode MODE_Mouse1000 st then st
      else if cb = 3 \<and> getMode MODE_Mouse1002 st then st
      else
        (let cb1 = (if eventType = 2 \<and> \<not> getMode MODE_Mouse1006 st then 3 else cb);
             cb2 = (if 4 \<le>s cb1 then cb1 + 0x3c else cb1);
             cb3 = (if (getMode MODE_Mouse1002 st \<or> getMode MODE_Mouse1003 st) \<and> eventType = 1
                    then cb2 + 0x20 else cb2);
             command =
               (if getMode MODE_Mouse1006 st then
                  snprintf 40
                    (0x1B # bytes ''[<'' @ fmt_d cb3 @ bytes '';'' @ fmt_d cx @ bytes '';''
                       @ fmt_d cy @ (if eventType = 2 then bytes ''m'' else bytes ''M''))
                else if getMode MODE_Mouse1015 st then
                  snprintf 40
                    (0x1B # bytes ''['' @ fmt_d (cb3 + 0x20) @ bytes '';'' @ fmt_d cx
                       @ bytes '';'' @ fmt_d cy @ bytes ''M'')
                else if getMode MODE_Mouse1005 st then
                  (if cx \<le>s 2015 \<and> cy \<le>s 2015 then
                     snprintf 40
                       (0x1B # bytes ''[M'' @ [ucast (cb3 + 0x20)]
                          @ toUtf8 (cx + 0x20) @ toUtf8 (cy + 0x20))
                   else [])
                else if cx \<le>s 223 \<and> cy \<le>s 223 then
                  snprintf 40
                    (0x1B # bytes ''[M''
                       @ [ucast (cb3 + 0x20), ucast (cx + 0x20), ucast (cy + 0x20)])
                else [])
         in sendString (c_string command) st))"

subsection \<open>The emulation at its start\<close>

text \<open>
  Modelled from the spec: the object as it is created, "with default modes, the
  US-ASCII charset and empty buffers". The constructor in the source initialises both
  mode sets with \<open>TerminalState()\<close>, sets \<open>_reportFocusEvents\<close> to false and calls
  \<open>initTokenizer\<close>; the declarations of the other members are in the class header,
  which is not among the sources.
\<close>

definition Vt102Emulation_new :: emu where
  "Vt102Emulation_new =
     \<lparr>currentModes = (\<lambda>m. False), savedModes = (\<lambda>m. False),
      tokenBuffer = (\<lambda>i. 0), tokenBufferPos = 0, argv = (\<lambda>i. 0), argc = 0,
      charClass_beyond = (\<lambda>c. 0),
      charsets = (\<lambda>i. \<lparr>charset = (\<lambda>n. of_char CHR ''B''), cu_cs = 0, graphic = False,
                         pound = False, sa_graphic = False, sa_pound = False\<rparr>),
      currentScreen = 0, codec = None, reportFocusEvents = False, trace = []\<rparr>"

text \<open>
  The emulation after \<open>reset()\<close>, with an empty trace: ANSI mode, every charset slot
  inactive for graphics, the primary screen current.
\<close>

definition after_reset :: emu where
  "after_reset = (reset Vt102Emulation_new)\<lparr>trace := []\<rparr>"

lemmas tok_defs = token_construct_def token_chr_def token_ctl_def token_esc_def token_esc_cs_def
  token_esc_de_def token_csi_ps_def token_csi_pn_def token_csi_pr_def token_vt52_def token_csi_pg_def
  token_csi_pe_def token_csi_sp_def token_csi_psp_def token_csi_pq_def

lemmas macro_defs = lec_def lun_def les_def eec_def ees_def eps_def epp_def epe_def eeq_def
  egt_def esp_def epsp_def osc_def ces_def dcs_def charClass_at_def

subsection \<open>Every case of the dispatcher is built from a few operations\<close>

lemma processToken_closure:
  assumes e: "\<And>s ev. P s \<Longrightarrow> P (emit ev s)"
    and "\<And>s m. P s \<Longrightarrow> P (setMode m s)"
    and "\<And>s m. P s \<Longrightarrow> P (resetMode m s)"
    and "\<And>s m. P s \<Longrightarrow> P (saveMode m s)"
    and "\<And>s m. P s \<Longrightarrow> P (restoreMode m s)"
    and "\<And>s. P s \<Longrightarrow> P (reset s)"
    and "\<And>s n. P s \<Longrightarrow> P (useCharset n s)"
    and "\<And>s n c. P s \<Longrightarrow> P (setCharset n c s)"
    and "\<And>s n c. P s \<Longrightarrow> P (setAndUseCharset n c s)"
    and "\<And>s. P s \<Longrightarrow> P (saveCursor s)"
    and "\<And>s. P s \<Longrightarrow> P (restoreCursor s)"
    and "\<And>s c. P s \<Longrightarrow> P (setCodec c s)"
    and "\<And>s b. P s \<Longrightarrow> P (set_reportFocusEvents b s)"
    and st: "P st"
  shows "P (processToken tok p q st)"
proof -
  have ifP: "\<And>c a b. P a \<Longrightarrow> P b \<Longrightarrow> P (if c then a else b)" by simp
  have sq0: "\<And>s. P s \<Longrightarrow> P (seq [] s)" by (simp add: seq_def)
  have sq: "\<And>f fs s. P (seq fs (f s)) \<Longrightarrow> P (seq (f # fs) s)" by (simp add: seq_def)
  have w: "\<And>s c. P s \<Longrightarrow> P (scr c s)" "\<And>s i c. P s \<Longrightarrow> P (scrn i c s)"
    "\<And>s. P s \<Longrightarrow> P (ignored s)"
    "\<And>s. P s \<Longrightarrow> P (reportAnswerBack s)" "\<And>s. P s \<Longrightarrow> P (reportTerminalType s)"
    "\<And>s. P s \<Longrightarrow> P (reportSize s)" "\<And>s. P s \<Longrightarrow> P (reportStatus s)"
    "\<And>s. P s \<Longrightarrow> P (reportCursorPosition s)" "\<And>s n. P s \<Longrightarrow> P (reportTerminalParms n s)"
    "\<And>s. P s \<Longrightarrow> P (reportTertiaryAttributes s)" "\<And>s. P s \<Longrightarrow> P (reportSecondaryAttributes s)"
    "\<And>s. P s \<Longrightarrow> P (reportDecodingError s)"
    "\<And>s t b. P s \<Longrightarrow> P (setMargins t b s)" "\<And>s l c. P s \<Longrightarrow> P (setImageSize l c s)"
    "\<And>s. P s \<Longrightarrow> P (clearHistory s)"
    by (simp_all add: scr_def scrn_def ignored_def reportAnswerBack_def reportTerminalType_def
        reportSize_def reportStatus_def reportCursorPosition_def reportTerminalParms_def
        reportTertiaryAttributes_def reportSecondaryAttributes_def reportDecodingError_def
        setMargins_def setImageSize_def clearHistory_def sendString_def seq_def e)
  show ?thesis
    unfolding processToken_def
    by (intro ifP sq sq0 w assms)
qed

subsection \<open>What the operations leave alone\<close>

text \<open>The tokenizer's part of the state.\<close>

definition tokz :: "emu \<Rightarrow> (nat \<Rightarrow> 32 word) \<times> nat \<times> (nat \<Rightarrow> 32 word) \<times> nat" where
  "tokz st = (tokenBuffer st, tokenBufferPos st, argv st, argc st)"

lemma tokzD:
  "tokz a = tokz b \<Longrightarrow>
     tokenBuffer a = tokenBuffer b \<and> tokenBufferPos a = tokenBufferPos b
     \<and> argv a = argv b \<and> argc a = argc b"
  by (simp add: tokz_def)

lemma tokz_basic [simp]:
  "tokz (emit e s) = tokz s"
  "tokz (set_current m b s) = tokz s"
  "tokz (setScreen n s) = tokz s"
  "tokz (scr c s) = tokz s"
  "tokz (scrn i c s) = tokz s"
  "tokz (bufferedUpdate s) = tokz s"
  "tokz (setImageSize l w s) = tokz s"
  "tokz (setCodec k s) = tokz s"
  "tokz (set_reportFocusEvents b s) = tokz s"
  "tokz (set_charset_of i f s) = tokz s"
  "tokz (saveMode m s) = tokz s"
  by (simp_all add: tokz_def emit_def set_current_def setScreen_def scr_def scrn_def
      bufferedUpdate_def setImageSize_def setCodec_def set_reportFocusEvents_def
      set_charset_of_def saveMode_def)

lemma seq_simps [simp]: "seq [] s = s" "seq (f # fs) s = seq fs (f s)"
  by (simp_all add: seq_def)

lemma tokz_clearScreenAndSetColumns [simp]: "tokz (clearScreenAndSetColumns n s) = tokz s"
  by (simp add: clearScreenAndSetColumns_def clearEntireScreen_def setDefaultMargins_def)

lemma tokz_setMode [simp]: "tokz (setMode m s) = tokz s"
  by (simp add: setMode_def Let_def)

lemma tokz_resetMode [simp]: "tokz (resetMode m s) = tokz s"
  by (simp add: resetMode_def Let_def)

lemma tokz_restoreMode [simp]: "tokz (restoreMode m s) = tokz s"
  by (simp add: restoreMode_def)

lemma tokz_resetModes [simp]: "tokz (resetModes s) = tokz s"
  by (simp add: resetModes_def)

lemma tokz_charset_ops [simp]:
  "tokz (useCharset n s) = tokz s"
  "tokz (setCharset n c s) = tokz s"
  "tokz (setAndUseCharset n c s) = tokz s"
  "tokz (saveCursor s) = tokz s"
  "tokz (restoreCursor s) = tokz s"
  "tokz (resetCharset i s) = tokz s"
  by (simp_all add: useCharset_def setCharset_def setAndUseCharset_def saveCursor_def
      restoreCursor_def resetCharset_def Let_def)

lemma tokz_reset [simp]: "tokz (reset s) = tokz (resetTokenizer s)"
proof -
  have "tokz (case codec s of None \<Rightarrow> setCodec LocaleCodec x | Some c \<Rightarrow> setCodec c x) = tokz x"
    for x by (simp split: option.split)
  then show ?thesis
    by (simp add: reset_def Let_def split: option.split)
qed

lemma argc_processToken: "argc (processToken tok p q st) \<le> argc st"
proof -
  have "argc (processToken tok p q st) \<le> n" if "argc st \<le> n" for n
  proof (rule processToken_closure [where P = "\<lambda>s. argc s \<le> n"])
    show "argc st \<le> n" by (rule that)
  next
    fix s :: emu assume "argc s \<le> n"
    then show "argc (reset s) \<le> n"
      using tokzD [OF tokz_reset [of s]] by (simp add: resetTokenizer_def)
  qed (use tokzD [OF tokz_basic(1)] tokzD [OF tokz_setMode] tokzD [OF tokz_resetMode]
      tokzD [OF tokz_basic(11)] tokzD [OF tokz_restoreMode] tokzD [OF tokz_charset_ops(1)]
      tokzD [OF tokz_charset_ops(2)] tokzD [OF tokz_charset_ops(3)]
      tokzD [OF tokz_charset_ops(4)] tokzD [OF tokz_charset_ops(5)] tokzD [OF tokz_basic(8)]
      tokzD [OF tokz_basic(9)] in simp_all)
  then show ?thesis by simp
qed

lemma csi_loop_measure:
  "i \<le> argc st \<Longrightarrow> i \<le> j \<Longrightarrow> argc (processToken tok p q st) - j < Suc (argc st) - i"
  using argc_processToken [of tok p q st] by linarith

subsection \<open>The tokenizer\<close>

text \<open>
  The loop over the arguments at the end of the ANSI branch of \<open>receiveChars\<close>:
  \<open>for (int i = 0; i <= argc; i++)\<close>, with \<open>i\<close> advanced inside the body by the colour
  sub-sequences.
\<close>

function csi_loop :: "32 word \<Rightarrow> nat \<Rightarrow> nat \<Rightarrow> emu \<Rightarrow> emu" where
  "csi_loop cc p i st =
     (if i \<le> argc st then
        (if epp p (tokenBuffer st) then
           csi_loop cc p (i + 1) (processToken (token_csi_pr cc (argv st i)) 0 0 st)
         else if eeq p (tokenBuffer st) then
           csi_loop cc p (i + 1) (processToken (token_csi_pq cc) 0 0 st)
         else if egt p (tokenBuffer st) then
           csi_loop cc p (i + 1) (processToken (token_csi_pg cc) 0 0 st)
         else if cc = ch CHR ''m'' \<and> 4 \<le> argc st - i \<and> (argv st i = 38 \<or> argv st i = 48)
                 \<and> argv st (i + 1) = 2 then
           csi_loop cc p (i + 5)
             (processToken (token_csi_ps cc (argv st i)) COLOR_SPACE_RGB
                (push_bit 16 (argv st (i + 2)) OR push_bit 8 (argv st (i + 3)) OR argv st (i + 4))
                st)
         else if cc = ch CHR ''m'' \<and> 2 \<le> argc st - i \<and> (argv st i = 38 \<or> argv st i = 48)
                 \<and> argv st (i + 1) = 5 then
           csi_loop cc p (i + 3)
             (processToken (token_csi_ps cc (argv st i)) COLOR_SPACE_256 (argv st (i + 2)) st)
         else if p < 2 \<or> charClass_at st (tokenBuffer st (p - 2)) AND INT_flag \<noteq> INT_flag then
           csi_loop cc p (i + 1) (processToken (token_csi_ps cc (argv st i)) 0 0 st)
         else csi_loop cc p (i + 1) st)
      else st)"
  by pat_completeness auto
termination
proof (relation "measure (\<lambda>(cc, p, i, st). argc st + 1 - i)")
qed (auto intro!: csi_loop_measure)

declare csi_loop.simps [simp del]

text \<open>
  The ANSI branch of \<open>receiveChars\<close> from the test \<open>if (osc) continue\<close> to its end, for the
  character \<open>cc\<close> that has just been appended to the buffer.
\<close>

definition ansi_tail :: "32 word \<Rightarrow> emu \<Rightarrow> emu" where
  "ansi_tail cc st =
     (let p = tokenBufferPos st; s = tokenBuffer st
      in if osc st then st
         else if lec p s 3 2 (ch CHR ''?'') then st
         else if lec p s 3 2 (ch CHR ''='') then st
         else if lec p s 3 2 (ch CHR ''>'') then st
         else if lec p s 3 2 (ch CHR ''!'') then st
         else if lec p s 3 2 SP then st
         else if lec p s 4 3 SP then st
         else if lun p cc then
           resetTokenizer (processToken token_chr (applyCharset cc st) 0 st)
         else if dcs p s then st
         else if lec p s 2 0 ESC then
           resetTokenizer (processToken (token_esc (s 1)) 0 0 st)
         else if les p s 3 1 SCS then
           resetTokenizer (processToken (token_esc_cs (s 1) (s 2)) 0 0 st)
         else if lec p s 3 1 (ch CHR ''#'') then
           resetTokenizer (processToken (token_esc_de (s 2)) 0 0 st)
         else if eps st p s cc CPN then
           resetTokenizer (processToken (token_csi_pn cc) (argv st 0) (argv st 1) st)
         else if eps st p s cc CPS then
           resetTokenizer (processToken (token_csi_ps cc (argv st 0)) (argv st 1) (argv st 2) st)
         else if epe p s then resetTokenizer (processToken (token_csi_pe cc) 0 0 st)
         else if esp p s then resetTokenizer (processToken (token_csi_sp cc) 0 0 st)
         else if epsp p s then
           resetTokenizer (processToken (token_csi_psp cc (argv st 0)) 0 0 st)
         else if ees p cc DIG then addDigit (cc - ch CHR ''0'') st
         else if eec p cc (ch CHR '';'') then addArgument st
         else if ees p cc INT_flag then st
         else if 3 \<le> p \<and> cc = ch CHR ''y'' \<and> s (p - 2) = ch CHR ''*'' then
           resetTokenizer (processChecksumRequest st)
         else resetTokenizer (csi_loop cc p 0 st))"

text \<open>The VT52 branch of \<open>receiveChars\<close>.\<close>

definition vt52_tail :: "emu \<Rightarrow> emu" where
  "vt52_tail st =
     (let p = tokenBufferPos st; s = tokenBuffer st
      in if lec p s 1 0 ESC then st
         else if les p s 1 0 CHR_flag then resetTokenizer (processToken token_chr (s 0) 0 st)
         else if lec p s 2 1 (ch CHR ''Y'') then st
         else if lec p s 3 1 (ch CHR ''Y'') then st
         else if p < 4 then resetTokenizer (processToken (token_vt52 (s 1)) 0 0 st)
         else resetTokenizer (processToken (token_vt52 (s 1)) (s 2) (s 3) st))"

text \<open>
  The head of the loop body of \<open>receiveChars\<close>: the handling of a control character.
  \<open>Inl\<close> is the state at a \<open>continue\<close>; \<open>Inr\<close> is the state with which the body goes on
  to \<open>addToCurrentToken\<close>.
\<close>

definition ctl_prefix :: "32 word \<Rightarrow> emu \<Rightarrow> emu + emu" where
  "ctl_prefix cc st =
     (if ces cc CTL then
        (if osc st \<and> cc \<noteq> 0x1b \<and> cc \<noteq> 0x07 then Inl st
         else if \<not> osc st then
           (let st1 = (if cc = CNTL (ch CHR ''X'') \<or> cc = CNTL (ch CHR ''Z'') \<or> cc = ESC
                       then resetTokenizer st else st)
            in if cc \<noteq> ESC then Inl (processToken (token_ctl (cc + ch CHR ''@'')) 0 0 st1)
               else Inr st1)
         else Inr st)
      else Inr st)"

lemma ctl_prefix_Inr_pos:
  "ctl_prefix cc st = Inr st0 \<Longrightarrow> tokenBufferPos st0 \<le> tokenBufferPos st"
  by (auto simp: ctl_prefix_def Let_def resetTokenizer_def split: if_splits)

lemma tokenBufferPos_addToCurrentToken:
  "tokenBufferPos (addToCurrentToken cc st) = min (tokenBufferPos st) (MAX_TOKEN_LENGTH - 1) + 1"
  by (simp add: addToCurrentToken_def Let_def)

lemma tokenBuffer_addToCurrentToken_last:
  "tokenBuffer (addToCurrentToken cc st) (tokenBufferPos (addToCurrentToken cc st) - 1) = cc"
  by (simp add: addToCurrentToken_def Let_def)

text \<open>
  The body of the loop of \<open>receiveChars\<close> for one character. The two calls
  \<open>receiveChars(QVector<uint>{c})\<close> of the source are calls of the body for \<open>c\<close>.
\<close>

function receiveChar :: "32 word \<Rightarrow> emu \<Rightarrow> emu" where
  "receiveChar cc st =
     (if cc = DEL then st
      else case ctl_prefix cc st of
        Inl st' \<Rightarrow> st'
      | Inr st0 \<Rightarrow>
          (if getMode MODE_Ansi (addToCurrentToken cc st0) then
             (if lec (tokenBufferPos (addToCurrentToken cc st0))
                     (tokenBuffer (addToCurrentToken cc st0)) 1 0 ESC
              then addToCurrentToken cc st0
              else if lec (tokenBufferPos (addToCurrentToken cc st0))
                     (tokenBuffer (addToCurrentToken cc st0)) 1 0 (ESC + 128)
              then receiveChar (ch CHR ''['')
                     ((addToCurrentToken cc st0)
                        \<lparr>tokenBuffer := (tokenBuffer (addToCurrentToken cc st0))(0 := ESC)\<rparr>)
              else if les (tokenBufferPos (addToCurrentToken cc st0))
                     (tokenBuffer (addToCurrentToken cc st0)) 2 1 GRP
              then addToCurrentToken cc st0
              else if 2 < tokenBufferPos (addToCurrentToken cc st0)
                      \<and> tokenBuffer (addToCurrentToken cc st0) 1 = ch CHR '']''
                      \<and> tokenBuffer (addToCurrentToken cc st0)
                           (tokenBufferPos (addToCurrentToken cc st0) - 2) = ESC
                      \<and> tokenBuffer (addToCurrentToken cc st0)
                           (tokenBufferPos (addToCurrentToken cc st0) - 1) = 0x5C
              then resetTokenizer
                     (processSessionAttributeRequest
                        (tokenBufferPos (addToCurrentToken cc st0) - 1)
                        (if tokenBuffer (addToCurrentToken cc st0) 2 = URL_LINK
                         then scr ToggleUrlInput (addToCurrentToken cc st0)
                         else addToCurrentToken cc st0))
              else if 2 < tokenBufferPos (addToCurrentToken cc st0)
                      \<and> tokenBuffer (addToCurrentToken cc st0) 1 = ch CHR '']''
                      \<and> tokenBuffer (addToCurrentToken cc st0)
                           (tokenBufferPos (addToCurrentToken cc st0) - 2) = ESC
              then receiveChar cc
                     (resetTokenizer
                        (processSessionAttributeRequest
                           (tokenBufferPos (addToCurrentToken cc st0) - 1)
                           (addToCurrentToken cc st0)))
              else if 2 < tokenBufferPos (addToCurrentToken cc st0)
                      \<and> tokenBuffer (addToCurrentToken cc st0) 1 = ch CHR '']''
                      \<and> tokenBuffer (addToCurrentToken cc st0)
                           (tokenBufferPos (addToCurrentToken cc st0) - 1) = 0x07
              then resetTokenizer
                     (processSessionAttributeRequest
                        (tokenBufferPos (addToCurrentToken cc st0))
                        (addToCurrentToken cc st0))
              else ansi_tail cc (addToCurrentToken cc st0))
           else vt52_tail (addToCurrentToken cc st0)))"
  by pat_completeness auto
termination
proof (relation "measure (\<lambda>(cc, st). if 2 \<le> tokenBufferPos st then 2
                                      else if cc = ESC + 128 then 1 else 0)")
  show "wf (measure (\<lambda>(cc, st). if 2 \<le> tokenBufferPos st then 2
                                 else if cc = ESC + 128 then (1::nat) else 0))"
    by simp
next
  fix cc :: "32 word" and st st0 :: emu
  assume c: "ctl_prefix cc st = Inr st0"
    and l: "lec (tokenBufferPos (addToCurrentToken cc st0))
              (tokenBuffer (addToCurrentToken cc st0)) 1 0 (ESC + 128)"
  from l have p: "tokenBufferPos (addToCurrentToken cc st0) = 1"
    and "tokenBuffer (addToCurrentToken cc st0) 0 = ESC + 128"
    by (simp_all add: lec_def)
  with tokenBuffer_addToCurrentToken_last [of cc st0] have "cc = ESC + 128" by simp
  with p show "((ch CHR ''['',
          (addToCurrentToken cc st0)
            \<lparr>tokenBuffer := (tokenBuffer (addToCurrentToken cc st0))(0 := ESC)\<rparr>),
         cc, st)
        \<in> measure (\<lambda>(cc, st). if 2 \<le> tokenBufferPos st then 2
                                else if cc = ESC + 128 then 1 else 0)"
    by (simp add: ESC_def)
next
  fix cc :: "32 word" and st st0 :: emu
  assume c: "ctl_prefix cc st = Inr st0"
    and "2 < tokenBufferPos (addToCurrentToken cc st0)
          \<and> tokenBuffer (addToCurrentToken cc st0) 1 = ch CHR '']''
          \<and> tokenBuffer (addToCurrentToken cc st0)
               (tokenBufferPos (addToCurrentToken cc st0) - 2) = ESC"
  then have "2 < tokenBufferPos (addToCurrentToken cc st0)" by simp
  then have "2 \<le> tokenBufferPos st0"
    by (simp add: tokenBufferPos_addToCurrentToken)
  with ctl_prefix_Inr_pos [OF c] have "2 \<le> tokenBufferPos st" by simp
  then show "((cc, resetTokenizer
               (processSessionAttributeRequest
                 (tokenBufferPos (addToCurrentToken cc st0) - 1)
                 (addToCurrentToken cc st0))),
         cc, st)
        \<in> measure (\<lambda>(cc, st). if 2 \<le> tokenBufferPos st then 2
                                else if cc = ESC + 128 then 1 else 0)"
    by (simp add: resetTokenizer_def)
qed

declare receiveChar.simps [simp del]

text \<open>\<open>receiveChars\<close>: the loop over the code points of a chunk of input.\<close>

definition receiveChars :: "32 word list \<Rightarrow> emu \<Rightarrow> emu" where
  "receiveChars chars st = fold receiveChar chars st"

subsection \<open>The mode sets after each operation of the registry\<close>

lemma modes_basic [simp]:
  "currentModes (emit e s) = currentModes s" "savedModes (emit e s) = savedModes s"
  "currentModes (scr c s) = currentModes s" "savedModes (scr c s) = savedModes s"
  "currentModes (scrn i c s) = currentModes s" "savedModes (scrn i c s) = savedModes s"
  "currentModes (setScreen n s) = currentModes s" "savedModes (setScreen n s) = savedModes s"
  "currentModes (bufferedUpdate s) = currentModes s" "savedModes (bufferedUpdate s) = savedModes s"
  "currentModes (setImageSize l w s) = currentModes s" "savedModes (setImageSize l w s) = savedModes s"
  "currentModes (setCodec k s) = currentModes s" "savedModes (setCodec k s) = savedModes s"
  "currentModes (set_charset_of i f s) = currentModes s"
  "savedModes (set_charset_of i f s) = savedModes s"
  "currentModes (set_reportFocusEvents b s) = currentModes s"
  "savedModes (set_reportFocusEvents b s) = savedModes s"
  "currentModes (resetTokenizer s) = currentModes s" "savedModes (resetTokenizer s) = savedModes s"
  "currentModes (set_current m b s) = (currentModes s)(m := b)"
  "savedModes (set_current m b s) = savedModes s"
  by (simp_all add: emit_def scr_def scrn_def setScreen_def bufferedUpdate_def setImageSize_def
      setCodec_def set_charset_of_def set_reportFocusEvents_def resetTokenizer_def set_current_def)

lemma modes_clearScreenAndSetColumns [simp]:
  "currentModes (clearScreenAndSetColumns n s) = currentModes s"
  "savedModes (clearScreenAndSetColumns n s) = savedModes s"
  by (simp_all add: clearScreenAndSetColumns_def clearEntireScreen_def setDefaultMargins_def)

lemma currentModes_setMode:
  "currentModes (setMode m s) =
     (if m = MODE_132Columns then (currentModes s)(m := currentModes s MODE_Allow132Columns)
      else if is_tracking_mode m then
        (currentModes s)(MODE_Mouse1000 := False, MODE_Mouse1001 := False,
                         MODE_Mouse1002 := False, MODE_Mouse1003 := False, m := True)
      else if is_encoding_mode m then
        (currentModes s)(MODE_Mouse1005 := False, MODE_Mouse1006 := False,
                         MODE_Mouse1015 := False, m := True)
      else (currentModes s)(m := True))"
  by (auto simp: setMode_def Let_def getMode_def is_tracking_mode_def is_encoding_mode_def)

lemma currentModes_resetMode:
  "currentModes (resetMode m s) =
     (if is_tracking_mode m then
        (currentModes s)(MODE_Mouse1000 := False, MODE_Mouse1001 := False,
                         MODE_Mouse1002 := False, MODE_Mouse1003 := False)
      else (currentModes s)(m := False))"
  by (auto simp: resetMode_def Let_def getMode_def is_tracking_mode_def)

lemma savedModes_setMode [simp]: "savedModes (setMode m s) = savedModes s"
  by (simp add: setMode_def Let_def)

lemma savedModes_resetMode [simp]: "savedModes (resetMode m s) = savedModes s"
  by (simp add: resetMode_def Let_def)

lemma modes_saveMode [simp]:
  "currentModes (saveMode m s) = currentModes s"
  "savedModes (saveMode m s) = (savedModes s)(m := currentModes s m)"
  by (simp_all add: saveMode_def)

lemma modes_charset_ops [simp]:
  "currentModes (useCharset n s) = currentModes s" "savedModes (useCharset n s) = savedModes s"
  "currentModes (setCharset n c s) = currentModes s" "savedModes (setCharset n c s) = savedModes s"
  "currentModes (setAndUseCharset n c s) = currentModes s"
  "savedModes (setAndUseCharset n c s) = savedModes s"
  "currentModes (saveCursor s) = currentModes s" "savedModes (saveCursor s) = savedModes s"
  "currentModes (restoreCursor s) = currentModes s" "savedModes (restoreCursor s) = savedModes s"
  "currentModes (resetCharset i s) = currentModes s" "savedModes (resetCharset i s) = savedModes s"
  by (simp_all add: useCharset_def setCharset_def setAndUseCharset_def saveCursor_def
      restoreCursor_def resetCharset_def Let_def)

text \<open>The current modes after \<open>resetModes\<close>, mode by mode.\<close>

lemma currentModes_resetModes:
  "currentModes (resetModes s) =
     (\<lambda>m. if m = MODE_Ansi then True
          else if m = MODE_Allow132Columns \<or> m = MODE_Mouse1007 \<or> m = MODE_Origin
                  \<or> m = MODE_Wrap \<or> m = MODE_Insert \<or> m = MODE_Screen \<or> m = MODE_Cursor
          then currentModes s m
          else False)"
proof
  fix m
  show "currentModes (resetModes s) m =
     (if m = MODE_Ansi then True
          else if m = MODE_Allow132Columns \<or> m = MODE_Mouse1007 \<or> m = MODE_Origin
                  \<or> m = MODE_Wrap \<or> m = MODE_Insert \<or> m = MODE_Screen \<or> m = MODE_Cursor
          then currentModes s m
          else False)"
    by (cases m)
      (simp_all add: resetModes_def currentModes_setMode currentModes_resetMode
        is_tracking_mode_def is_encoding_mode_def)
qed

lemma currentModes_reset: "currentModes (reset s) = currentModes (resetModes s)"
  by (simp add: reset_def Let_def currentModes_resetModes split: option.split)

lemma processToken_esc_c: "processToken (token_esc (ch CHR ''c'')) p q st = reset st"
  by (simp add: processToken_def tok_defs)

text \<open>
  C2. After a core reset (\<open>reset()\<close>, which is also what the token of \<open>ESC c\<close> runs),
  mode Ansi is true, Allow132Columns and Mouse1007 have the values they had before, and
  132Columns, the four mouse-tracking modes, the three mouse-encoding modes,
  BracketedPaste, AppScreen, AppCuKeys, AppKeyPad and NewLine are false.
\<close>

theorem reset_modes:
  "processToken (token_esc (ch CHR ''c'')) p q st = reset st
   \<and> getMode MODE_Ansi (reset st)
   \<and> getMode MODE_Allow132Columns (reset st) = getMode MODE_Allow132Columns st
   \<and> getMode MODE_Mouse1007 (reset st) = getMode MODE_Mouse1007 st
   \<and> getMode MODE_132Columns (reset st) = False
   \<and> getMode MODE_Mouse1000 (reset st) = False
   \<and> getMode MODE_Mouse1001 (reset st) = False
   \<and> getMode MODE_Mouse1002 (reset st) = False
   \<and> getMode MODE_Mouse1003 (reset st) = False
   \<and> getMode MODE_Mouse1005 (reset st) = False
   \<and> getMode MODE_Mouse1006 (reset st) = False
   \<and> getMode MODE_Mouse1015 (reset st) = False
   \<and> getMode MODE_BracketedPaste (reset st) = False
   \<and> getMode MODE_AppScreen (reset st) = False
   \<and> getMode MODE_AppCuKeys (reset st) = False
   \<and> getMode MODE_AppKeyPad (reset st) = False
   \<and> getMode MODE_NewLine (reset st) = False"
  using processToken_esc_c [of p q st]
  by (simp add: getMode_def currentModes_reset currentModes_resetModes)

subsection \<open>Saving and restoring one mode\<close>

text \<open>
  The operations between \<open>saveMode(m)\<close> and \<open>restoreMode(m)\<close>: \<open>True\<close> is
  \<open>setMode(m)\<close>, \<open>False\<close> is \<open>resetMode(m)\<close>.
\<close>

definition intervening :: "mode \<Rightarrow> bool list \<Rightarrow> emu \<Rightarrow> emu" where
  "intervening m bs st = fold (\<lambda>b. if b then setMode m else resetMode m) bs st"

lemma savedModes_intervening: "savedModes (intervening m bs st) = savedModes st"
  unfolding intervening_def by (induction bs arbitrary: st) simp_all

lemma Allow132_intervening:
  "currentModes (intervening MODE_132Columns bs st) MODE_Allow132Columns
     = currentModes st MODE_Allow132Columns"
  unfolding intervening_def
  by (induction bs arbitrary: st)
    (simp_all add: currentModes_setMode currentModes_resetMode is_tracking_mode_def)

lemma getMode_restoreMode:
  "getMode m (restoreMode m st) =
     (savedModes st m \<and> (if m = MODE_132Columns then getMode MODE_Allow132Columns st else True))"
  by (simp add: restoreMode_def getMode_def currentModes_setMode currentModes_resetMode
      is_tracking_mode_def is_encoding_mode_def)

lemma getMode_setMode_same:
  "getMode m (setMode m st) =
     (if m = MODE_132Columns then getMode MODE_Allow132Columns st else True)"
  by (simp add: getMode_def currentModes_setMode is_tracking_mode_def is_encoding_mode_def)

text \<open>
  C5, as amended. After \<open>setMode(m); saveMode(m)\<close>, any sequence of \<open>setMode(m)\<close> and
  \<open>resetMode(m)\<close>, and \<open>restoreMode(m)\<close>, \<open>getMode(m)\<close> is the value that \<open>saveMode\<close>
  captured. That value is true for every mode but 132Columns, where it is the value of
  Allow132Columns: without it, \<open>setMode(132Columns)\<close> leaves the mode off. When the
  saved value is false, \<open>getMode(m)\<close> is false after \<open>restoreMode(m)\<close>.
\<close>

theorem save_restore_mode:
  "getMode m (restoreMode m (intervening m bs (saveMode m (setMode m st))))
     = getMode m (saveMode m (setMode m st))
   \<and> getMode m (saveMode m (setMode m st))
     = (if m = MODE_132Columns then getMode MODE_Allow132Columns st else True)
   \<and> (\<not> getMode m st \<longrightarrow> \<not> getMode m (restoreMode m (intervening m bs (saveMode m st))))"
proof (intro conjI impI)
  show c: "getMode m (saveMode m (setMode m st))
     = (if m = MODE_132Columns then getMode MODE_Allow132Columns st else True)"
    using getMode_setMode_same [of m st] by (simp add: getMode_def)
  have a: "getMode MODE_Allow132Columns (intervening MODE_132Columns bs (saveMode MODE_132Columns (setMode MODE_132Columns st)))
      = getMode MODE_Allow132Columns st"
    by (simp add: getMode_def Allow132_intervening currentModes_setMode)
  have s: "savedModes (intervening m bs (saveMode m (setMode m st))) m
      = getMode m (setMode m st)"
    by (simp add: savedModes_intervening getMode_def)
  show "getMode m (restoreMode m (intervening m bs (saveMode m (setMode m st))))
     = getMode m (saveMode m (setMode m st))"
    unfolding getMode_restoreMode s c getMode_setMode_same using a by auto
  assume "\<not> getMode m st"
  moreover have "savedModes (intervening m bs (saveMode m st)) m = getMode m st"
    by (simp add: savedModes_intervening getMode_def)
  ultimately show "\<not> getMode m (restoreMode m (intervening m bs (saveMode m st)))"
    by (simp add: getMode_restoreMode)
qed

theorem save_restore_mode_witness:
  "\<not> getMode MODE_NewLine Vt102Emulation_new
   \<and> \<not> getMode MODE_NewLine
         (restoreMode MODE_NewLine
            (intervening MODE_NewLine [True, False, True]
               (saveMode MODE_NewLine Vt102Emulation_new)))
   \<and> getMode MODE_NewLine
         (restoreMode MODE_NewLine
            (intervening MODE_NewLine [False]
               (saveMode MODE_NewLine (setMode MODE_NewLine Vt102Emulation_new))))"
  using save_restore_mode [of MODE_NewLine "[True, False, True]" Vt102Emulation_new]
    save_restore_mode [of MODE_NewLine "[False]" Vt102Emulation_new]
  by (simp add: getMode_def Vt102Emulation_new_def)

text \<open>
  The claim as stated fails for 132Columns: in the new emulation Allow132Columns is off,
  \<open>setMode(132Columns)\<close> leaves the mode off, and it is off after \<open>restoreMode\<close>.
\<close>

theorem save_restore_132Columns_counterexample:
  "\<not> getMode MODE_132Columns
       (restoreMode MODE_132Columns
          (intervening MODE_132Columns []
             (saveMode MODE_132Columns (setMode MODE_132Columns Vt102Emulation_new))))"
  unfolding getMode_restoreMode
  by (simp add: intervening_def getMode_def currentModes_setMode Vt102Emulation_new_def)

subsection \<open>Properties kept by every step of the tokenizer\<close>

text \<open>
  A property of the state is kept by the operations the tokenizer and the dispatcher
  are built from. \<open>addDigit\<close> is only called with a decimal digit.
\<close>

definition op_closed :: "(emu \<Rightarrow> bool) \<Rightarrow> bool" where
  "op_closed P =
     ((\<forall>s ev. P s \<longrightarrow> P (emit ev s))
      \<and> (\<forall>s m. P s \<longrightarrow> P (setMode m s))
      \<and> (\<forall>s m. P s \<longrightarrow> P (resetMode m s))
      \<and> (\<forall>s m. P s \<longrightarrow> P (saveMode m s))
      \<and> (\<forall>s. P s \<longrightarrow> P (reset s))
      \<and> (\<forall>s n. P s \<longrightarrow> P (useCharset n s))
      \<and> (\<forall>s n c. P s \<longrightarrow> P (setCharset n c s))
      \<and> (\<forall>s n c. P s \<longrightarrow> P (setAndUseCharset n c s))
      \<and> (\<forall>s. P s \<longrightarrow> P (saveCursor s))
      \<and> (\<forall>s. P s \<longrightarrow> P (restoreCursor s))
      \<and> (\<forall>s c. P s \<longrightarrow> P (setCodec c s))
      \<and> (\<forall>s b. P s \<longrightarrow> P (set_reportFocusEvents b s))
      \<and> (\<forall>s. P s \<longrightarrow> P (resetTokenizer s))
      \<and> (\<forall>s cc. P s \<longrightarrow> P (addToCurrentToken cc s))
      \<and> (\<forall>s. P s \<longrightarrow> P (addArgument s))
      \<and> (\<forall>s d. P s \<longrightarrow> d \<le> 9 \<longrightarrow> P (addDigit d s))
      \<and> (\<forall>s v. P s \<longrightarrow> P (s\<lparr>tokenBuffer := (tokenBuffer s)(0 := v)\<rparr>)))"

lemma op_closedD:
  assumes "op_closed P"
  shows "\<And>s ev. P s \<Longrightarrow> P (emit ev s)"
    and "\<And>s m. P s \<Longrightarrow> P (setMode m s)"
    and "\<And>s m. P s \<Longrightarrow> P (resetMode m s)"
    and "\<And>s m. P s \<Longrightarrow> P (saveMode m s)"
    and "\<And>s. P s \<Longrightarrow> P (reset s)"
    and "\<And>s n. P s \<Longrightarrow> P (useCharset n s)"
    and "\<And>s n c. P s \<Longrightarrow> P (setCharset n c s)"
    and "\<And>s n c. P s \<Longrightarrow> P (setAndUseCharset n c s)"
    and "\<And>s. P s \<Longrightarrow> P (saveCursor s)"
    and "\<And>s. P s \<Longrightarrow> P (restoreCursor s)"
    and "\<And>s c. P s \<Longrightarrow> P (setCodec c s)"
    and "\<And>s b. P s \<Longrightarrow> P (set_reportFocusEvents b s)"
    and "\<And>s. P s \<Longrightarrow> P (resetTokenizer s)"
    and "\<And>s cc. P s \<Longrightarrow> P (addToCurrentToken cc s)"
    and "\<And>s. P s \<Longrightarrow> P (addArgument s)"
    and "\<And>s d. P s \<Longrightarrow> d \<le> 9 \<Longrightarrow> P (addDigit d s)"
    and "\<And>s v. P s \<Longrightarrow> P (s\<lparr>tokenBuffer := (tokenBuffer s)(0 := v)\<rparr>)"
  using assms by (simp_all only: op_closed_def)

lemma op_closed_processToken:
  assumes "op_closed P" and "P st"
  shows "P (processToken tok p q st)"
proof (rule processToken_closure [where P = P])
  fix s m assume "P s"
  then show "P (restoreMode m s)"
    unfolding restoreMode_def
    using op_closedD(2,3) [OF assms(1)] by (cases "savedModes s m") simp_all
qed (rule op_closedD [OF assms(1)] assms(2), assumption?)+

lemma op_closed_csi_loop:
  assumes "op_closed P"
  shows "P st \<Longrightarrow> P (csi_loop cc p i st)"
proof (induction cc p i st rule: csi_loop.induct)
  case (1 cc p i st)
  have ifP2: "\<And>c a b. (c \<Longrightarrow> P b) \<Longrightarrow> (\<not> c \<Longrightarrow> P a) \<Longrightarrow> P (if c then b else a)" by simp
  note pt = op_closed_processToken [OF assms]
  show ?case
    apply (subst csi_loop.simps)
    apply (intro ifP2)
    apply ((rule "1.IH"; (assumption | rule pt "1.prems")+) | rule "1.prems")+
    done
qed

lemma ees_DIG_digit:
  assumes "ees p cc DIG"
  shows "cc - ch CHR ''0'' \<le> 9"
proof -
  from assms have "cc < 256" and d: "charClass cc AND DIG = DIG"
    by (simp_all add: ees_def)
  have "cc \<in> set (str ''0123456789'')"
  proof (rule ccontr)
    assume "cc \<notin> set (str ''0123456789'')"
    then have "charClass cc AND DIG = 0"
      by (simp add: charClass_def CTL_def CHR_flag_def INT_flag_def CPN_def CPS_def DIG_def
          SCS_def GRP_def)
    with d show False by (simp add: DIG_def)
  qed
  then show ?thesis by (auto simp: str_def)
qed

lemma op_closed_emitters:
  assumes "op_closed P" and "P st"
  shows "P (processChecksumRequest st)" and "P (processSessionAttributeRequest n st)"
    and "P (scr c st)" and "P (reportDecodingError st)"
  using assms(2) op_closedD(1) [OF assms(1)]
  by (simp_all add: processChecksumRequest_def processSessionAttributeRequest_def Let_def
      scr_def reportDecodingError_def split: prod.split)

lemma op_closed_ansi_tail:
  assumes "op_closed P" and "P st"
  shows "P (ansi_tail cc st)"
proof -
  have ifP2: "\<And>c a b. (c \<Longrightarrow> P b) \<Longrightarrow> (\<not> c \<Longrightarrow> P a) \<Longrightarrow> P (if c then b else a)" by simp
  note D = op_closedD [OF assms(1)]
  show ?thesis
    unfolding ansi_tail_def Let_def
    by ((intro ifP2 D(13) D(15) D(16) op_closed_processToken [OF assms(1)]
          op_closed_csi_loop [OF assms(1)] op_closed_emitters(1) [OF assms(1)] assms(2))
        | erule ees_DIG_digit)+
qed

lemma op_closed_vt52_tail:
  assumes "op_closed P" and "P st"
  shows "P (vt52_tail st)"
proof -
  have ifP2: "\<And>c a b. (c \<Longrightarrow> P b) \<Longrightarrow> (\<not> c \<Longrightarrow> P a) \<Longrightarrow> P (if c then b else a)" by simp
  note D = op_closedD [OF assms(1)]
  show ?thesis
    unfolding vt52_tail_def Let_def
    by (intro ifP2 D(13) op_closed_processToken [OF assms(1)] assms(2))
qed

lemma op_closed_ctl_prefix:
  assumes "op_closed P" and "P st"
  shows "case ctl_prefix cc st of Inl s \<Rightarrow> P s | Inr s \<Rightarrow> P s"
proof -
  note D = op_closedD [OF assms(1)]
  note pt = op_closed_processToken [OF assms(1)]
  show ?thesis
    unfolding ctl_prefix_def Let_def using assms(2) by (simp add: D(13) pt)
qed

lemma op_closed_receiveChar:
  assumes "op_closed P"
  shows "P st \<Longrightarrow> P (receiveChar cc st)"
proof (induction cc st rule: receiveChar.induct)
  case (1 cc st)
  have ifP2: "\<And>c a b. (c \<Longrightarrow> P b) \<Longrightarrow> (\<not> c \<Longrightarrow> P a) \<Longrightarrow> P (if c then b else a)" by simp
  note D = op_closedD [OF assms]
  note em = op_closed_emitters [OF assms]
  show ?case
  proof (cases "ctl_prefix cc st")
    case (Inl s)
    with op_closed_ctl_prefix [OF assms "1.prems", of cc] have "P s" by simp
    then show ?thesis
      by (subst receiveChar.simps) (simp add: Inl "1.prems")
  next
    case (Inr s0)
    with op_closed_ctl_prefix [OF assms "1.prems", of cc] have s0: "P s0" by simp
    then have s1: "P (addToCurrentToken cc s0)" by (rule D(14))
    show ?thesis
      apply (subst receiveChar.simps)
      apply (simp only: Inr sum.case)
      apply ((intro ifP2 D(13) D(17) em(2) em(3) op_closed_ansi_tail [OF assms]
               op_closed_vt52_tail [OF assms] s1 "1.prems")
             | (rule "1.IH"(1) [OF _ Inr] "1.IH"(2) [OF _ Inr]; assumption?))+
      done
  qed
qed

lemma op_closed_receiveChars:
  assumes "op_closed P"
  shows "P st \<Longrightarrow> P (receiveChars chars st)"
  unfolding receiveChars_def
  by (induction chars arbitrary: st) (simp_all add: op_closed_receiveChar [OF assms])

subsection \<open>Arithmetic of the arguments\<close>

lemma sint_small32:
  assumes "uint (a::32 word) < 2147483648"
  shows "sint a = uint a"
proof -
  have "sint a = signed_take_bit 31 (uint a)"
    by (simp add: sint_uint)
  also have "\<dots> = uint a"
  proof (rule signed_take_bit_int_eq_self)
    show "- (2 ^ 31) \<le> uint a" by (rule order_trans [of _ 0]) simp_all
    show "uint a < 2 ^ 31" using assms by simp
  qed
  finally show ?thesis .
qed

lemma uint_digit_step:
  assumes "(a::32 word) \<le> 40960" and "d \<le> 9"
  shows "uint (10 * a + d) = 10 * uint a + uint d"
proof -
  have a: "uint a \<le> 40960" and d: "uint d \<le> 9"
    using assms by (simp_all add: word_le_def)
  have m: "uint (10 * a) = 10 * uint a"
    using uint_mult_lem [of 10 a] a by simp
  show ?thesis
    using uint_add_lem [of "10 * a" d] a d by (simp add: m)
qed

lemma sint_qMin: "sint (qMin a b) = min (sint a) (sint b)"
  by (simp add: qMin_def word_sless_alt min_def)

lemma sint_le_MAX:
  assumes "(a::32 word) \<le> 40960"
  shows "sint a = uint a" and "0 \<le> sint a" and "sint a \<le> 40960"
proof -
  have u: "uint a \<le> 40960" using assms by (simp add: word_le_def)
  then show s: "sint a = uint a" by (intro sint_small32) simp
  show "0 \<le> sint a" unfolding s by simp
  show "sint a \<le> 40960" unfolding s by (rule u)
qed

lemma argv_digit:
  assumes "(a::32 word) \<le> MAX_ARGUMENT" and "d \<le> 9"
  shows "sint (qMin (10 * a + d) MAX_ARGUMENT) = min (10 * sint a + sint d) (sint MAX_ARGUMENT)"
    and "qMin (10 * a + d) MAX_ARGUMENT \<le> MAX_ARGUMENT"
proof -
  have a: "a \<le> 40960" using assms(1) by (simp add: MAX_ARGUMENT_def)
  have d: "d \<le> 40960" using assms(2) by (simp add: word_le_def)
  have ua: "uint a \<le> 40960" and ud: "uint d \<le> 9"
    using a assms(2) by (simp_all add: word_le_def)
  have u: "uint (10 * a + d) = 10 * uint a + uint d"
    by (rule uint_digit_step [OF a assms(2)])
  have s: "sint (10 * a + d) = uint (10 * a + d)"
    by (rule sint_small32) (use ua ud in \<open>simp add: u\<close>)
  show "sint (qMin (10 * a + d) MAX_ARGUMENT) = min (10 * sint a + sint d) (sint MAX_ARGUMENT)"
    by (simp add: sint_qMin s u sint_le_MAX(1) [OF a] sint_le_MAX(1) [OF d])
  have "uint (qMin (10 * a + d) MAX_ARGUMENT) \<le> 40960"
    using ua ud by (simp add: qMin_def word_sless_alt s u MAX_ARGUMENT_def)
  then show "qMin (10 * a + d) MAX_ARGUMENT \<le> MAX_ARGUMENT"
    by (simp add: word_le_def MAX_ARGUMENT_def)
qed

subsection \<open>The mouse modes exclude each other\<close>

definition at_most_one :: "bool list \<Rightarrow> bool" where
  "at_most_one bs = (length (filter (\<lambda>b. b) bs) \<le> 1)"

definition mouse_exclusive :: "emu \<Rightarrow> bool" where
  "mouse_exclusive st =
     (at_most_one [getMode MODE_Mouse1000 st, getMode MODE_Mouse1001 st,
                   getMode MODE_Mouse1002 st, getMode MODE_Mouse1003 st]
      \<and> at_most_one [getMode MODE_Mouse1005 st, getMode MODE_Mouse1006 st,
                      getMode MODE_Mouse1015 st])"

text \<open>
  The operations of the claim: the four operations of the registry, and input fed to
  \<open>receiveChars\<close>, whose tokens reach the registry through \<open>processToken\<close>.
\<close>

datatype operation =
    DoSetMode mode | DoResetMode mode | DoSaveMode mode | DoRestoreMode mode
  | DoReceiveChars "32 word list"

fun run_operation :: "operation \<Rightarrow> emu \<Rightarrow> emu" where
  "run_operation (DoSetMode m) st = setMode m st"
| "run_operation (DoResetMode m) st = resetMode m st"
| "run_operation (DoSaveMode m) st = saveMode m st"
| "run_operation (DoRestoreMode m) st = restoreMode m st"
| "run_operation (DoReceiveChars chars) st = receiveChars chars st"

definition run_operations :: "operation list \<Rightarrow> emu \<Rightarrow> emu" where
  "run_operations ops st = fold run_operation ops st"

lemma at_most_one4:
  "at_most_one [a, b, c, d] =
     (\<not> (a \<and> b) \<and> \<not> (a \<and> c) \<and> \<not> (a \<and> d) \<and> \<not> (b \<and> c) \<and> \<not> (b \<and> d) \<and> \<not> (c \<and> d))"
  by (cases a; cases b; cases c; cases d) (simp_all add: at_most_one_def)

lemma at_most_one3:
  "at_most_one [a, b, c] = (\<not> (a \<and> b) \<and> \<not> (a \<and> c) \<and> \<not> (b \<and> c))"
  by (cases a; cases b; cases c) (simp_all add: at_most_one_def)

lemma mouse_exclusive_cong:
  "currentModes a = currentModes b \<Longrightarrow> mouse_exclusive a = mouse_exclusive b"
  by (simp add: mouse_exclusive_def getMode_def)

lemma currentModes_tokenizer [simp]:
  "currentModes (addToCurrentToken cc s) = currentModes s"
  "currentModes (addArgument s) = currentModes s"
  "currentModes (addDigit d s) = currentModes s"
  "currentModes (s\<lparr>tokenBuffer := b\<rparr>) = currentModes s"
  by (simp_all add: addToCurrentToken_def addArgument_def addDigit_def Let_def)

lemma mouse_exclusive_setMode: "mouse_exclusive s \<Longrightarrow> mouse_exclusive (setMode m s)"
  by (cases m)
    (auto simp: mouse_exclusive_def at_most_one4 at_most_one3 getMode_def currentModes_setMode is_tracking_mode_def
      is_encoding_mode_def)

lemma mouse_exclusive_resetMode: "mouse_exclusive s \<Longrightarrow> mouse_exclusive (resetMode m s)"
  by (cases m)
    (auto simp: mouse_exclusive_def at_most_one4 at_most_one3 getMode_def currentModes_resetMode is_tracking_mode_def)

lemma mouse_exclusive_restoreMode: "mouse_exclusive s \<Longrightarrow> mouse_exclusive (restoreMode m s)"
  by (simp add: restoreMode_def mouse_exclusive_setMode mouse_exclusive_resetMode)

lemma mouse_exclusive_reset: "mouse_exclusive (reset s)"
  by (simp add: mouse_exclusive_def at_most_one4 at_most_one3 getMode_def currentModes_reset
      currentModes_resetModes)

lemma op_closed_mouse_exclusive: "op_closed mouse_exclusive"
  unfolding op_closed_def
proof (intro conjI allI impI)
  fix s m assume "mouse_exclusive s"
  then show "mouse_exclusive (setMode m s)" by (rule mouse_exclusive_setMode)
next
  fix s m assume "mouse_exclusive s"
  then show "mouse_exclusive (resetMode m s)" by (rule mouse_exclusive_resetMode)
next
  fix s :: emu
  show "mouse_exclusive (reset s)" by (rule mouse_exclusive_reset)
qed (simp_all add: mouse_exclusive_cong [of "f s" s for f s])

text \<open>
  C1. Starting from the new emulation, after any sequence of \<open>setMode\<close>, \<open>resetMode\<close>,
  \<open>saveMode\<close> and \<open>restoreMode\<close> operations and of input fed to \<open>receiveChars\<close> (whose
  \<open>CSI ? h/l/s/r\<close> tokens call the same four operations), at most one of Mouse1000,
  Mouse1001, Mouse1002, Mouse1003 is true, and at most one of Mouse1005, Mouse1006,
  Mouse1015.
\<close>

theorem mouse_modes_exclusive:
  "mouse_exclusive (run_operations ops Vt102Emulation_new)"
proof -
  have step: "mouse_exclusive (run_operation x s)" if "mouse_exclusive s" for x s
    using that
    by (cases x)
      (simp_all add: mouse_exclusive_setMode mouse_exclusive_resetMode
        mouse_exclusive_restoreMode op_closed_receiveChars [OF op_closed_mouse_exclusive]
        mouse_exclusive_cong [of "saveMode m s" s for m])
  have "mouse_exclusive (fold run_operation ops s)" if "mouse_exclusive s" for s
    using that by (induction ops arbitrary: s) (simp_all add: step)
  moreover have "mouse_exclusive Vt102Emulation_new"
    by (simp add: mouse_exclusive_def at_most_one4 at_most_one3 getMode_def
        Vt102Emulation_new_def)
  ultimately show ?thesis by (simp add: run_operations_def)
qed

end
